theory Spec2Isabelle
  imports Complex_Main "HOL-Library.AList"
begin

section \<open>Stock dashboard: fetch, cache and metrics\<close>

text \<open>
  A shallow embedding of \<^verbatim>\<open>streamlit.py\<close>: \<^verbatim>\<open>fetch_stock_data\<close> (lines 23-66),
  \<^verbatim>\<open>calculate_metrics\<close> (lines 68-96) and the part of \<^verbatim>\<open>main\<close> that drives them
  (lines 160-287). The pandas, requests and Streamlit calls are modelled by what the
  libraries document; each such choice is stated where it is made.
\<close>

subsection \<open>Numbers\<close>

text \<open>
  A cell of a numeric column is a float64. The model keeps the special values of the
  format, since the code produces them (a division by zero gives an infinity or
  not-a-number, a short window gives not-a-number), and idealises the finite values as
  exact reals: rounding, overflow and the sign of zero are not modelled. Nor is a column
  of whole numbers only, which pandas holds as int64 and on which the subtraction of line
  85 wraps around beyond \<open>2 ^ 63\<close>: every column of the model is a float64 column.
\<close>

datatype fval = Fin real | PInf | NInf | NaN

fun isna :: "fval \<Rightarrow> bool" where
  "isna NaN = True"
| "isna _ = False"

fun isfinite :: "fval \<Rightarrow> bool" where
  "isfinite (Fin _) = True"
| "isfinite _ = False"

fun fin_val :: "fval \<Rightarrow> real" where
  "fin_val (Fin x) = x"
| "fin_val _ = 0"

fun fsign :: "fval \<Rightarrow> real" where
  "fsign (Fin x) = sgn x"
| "fsign PInf = 1"
| "fsign NInf = - 1"
| "fsign NaN = 0"

definition inf_of_sign :: "real \<Rightarrow> fval" where
  "inf_of_sign s = (if 0 < s then PInf else if s < 0 then NInf else NaN)"

fun fneg :: "fval \<Rightarrow> fval" where
  "fneg (Fin x) = Fin (- x)"
| "fneg PInf = NInf"
| "fneg NInf = PInf"
| "fneg NaN = NaN"

fun fadd :: "fval \<Rightarrow> fval \<Rightarrow> fval" where
  "fadd NaN _ = NaN"
| "fadd _ NaN = NaN"
| "fadd (Fin x) (Fin y) = Fin (x + y)"
| "fadd PInf NInf = NaN"
| "fadd NInf PInf = NaN"
| "fadd PInf _ = PInf"
| "fadd _ PInf = PInf"
| "fadd NInf _ = NInf"
| "fadd _ NInf = NInf"

definition fsub :: "fval \<Rightarrow> fval \<Rightarrow> fval" where
  "fsub a b = fadd a (fneg b)"

fun fmul :: "fval \<Rightarrow> fval \<Rightarrow> fval" where
  "fmul NaN _ = NaN"
| "fmul _ NaN = NaN"
| "fmul (Fin x) (Fin y) = Fin (x * y)"
| "fmul a b = inf_of_sign (fsign a * fsign b)"

text \<open>
  Division of numpy scalars does not raise: a finite non-zero value over zero is an
  infinity, zero over zero is not-a-number (with a warning only).
\<close>

fun fdiv :: "fval \<Rightarrow> fval \<Rightarrow> fval" where
  "fdiv NaN _ = NaN"
| "fdiv _ NaN = NaN"
| "fdiv (Fin x) (Fin y) = (if y = 0 then inf_of_sign (sgn x) else Fin (x / y))"
| "fdiv (Fin x) _ = Fin 0"
| "fdiv a (Fin y) = inf_of_sign (fsign a * (if y < 0 then - 1 else 1))"
| "fdiv _ _ = NaN"

fun fsqrt :: "fval \<Rightarrow> fval" where
  "fsqrt (Fin x) = (if x < 0 then NaN else Fin (sqrt x))"
| "fsqrt PInf = PInf"
| "fsqrt _ = NaN"

fun fless :: "fval \<Rightarrow> fval \<Rightarrow> bool" where
  "fless (Fin x) (Fin y) = (x < y)"
| "fless NInf (Fin _) = True"
| "fless NInf PInf = True"
| "fless (Fin _) PInf = True"
| "fless _ _ = False"

definition fmax2 :: "fval \<Rightarrow> fval \<Rightarrow> fval" where
  "fmax2 a b = (if fless a b then b else a)"

definition fmin2 :: "fval \<Rightarrow> fval \<Rightarrow> fval" where
  "fmin2 a b = (if fless b a then b else a)"

definition fsum :: "fval list \<Rightarrow> fval" where
  "fsum vs = foldl fadd (Fin 0) vs"

subsection \<open>The pandas library\<close>

text \<open>
  The repository does not fix the release of pandas, and the releases differ in places the
  code reaches. How pandas reads one key as a date and one string as a number
  (\<open>None\<close> for a string it rejects), whether \<^verbatim>\<open>pct_change\<close> first fills a
  not-a-number cell with the last valid one (it does before release 3.0), and whether
  \<^verbatim>\<open>from_dict\<close> keeps a record that has no field as a row of missing cells (release
  3 does) or drops it, are the parameter \<open>pd\<close> of the model: the library as installed.
\<close>

record 'd pandas =
  to_datetime :: "string \<Rightarrow> 'd option"
  to_numeric :: "string \<Rightarrow> fval option"
  pads_pct_change :: bool
  keeps_empty_records :: bool

subsection \<open>Column reductions of pandas\<close>

text \<open>
  \<^verbatim>\<open>Series.max\<close>, \<^verbatim>\<open>min\<close>, \<^verbatim>\<open>mean\<close> and \<^verbatim>\<open>std\<close> skip not-a-number cells;
  on no remaining cell they give not-a-number. \<^verbatim>\<open>std\<close> is the sample deviation (one
  degree of freedom removed).
\<close>

definition dropna :: "fval list \<Rightarrow> fval list" where
  "dropna vs = filter (\<lambda>v. \<not> isna v) vs"

definition series_max :: "fval list \<Rightarrow> fval" where
  "series_max vs = (case dropna vs of [] \<Rightarrow> NaN | w # ws \<Rightarrow> foldl fmax2 w ws)"

definition series_min :: "fval list \<Rightarrow> fval" where
  "series_min vs = (case dropna vs of [] \<Rightarrow> NaN | w # ws \<Rightarrow> foldl fmin2 w ws)"

definition series_mean :: "fval list \<Rightarrow> fval" where
  "series_mean vs =
     (let ws = dropna vs in
      if ws = [] then NaN else fdiv (fsum ws) (Fin (real (length ws))))"

definition series_std :: "fval list \<Rightarrow> fval" where
  "series_std vs =
     (let ws = dropna vs; n = length ws in
      if n \<le> 1 then NaN
      else
        let avg = fdiv (fsum ws) (Fin (real n));
            sqr = map (\<lambda>x. fmul (fsub avg x) (fsub avg x)) ws
        in fsqrt (fdiv (fsum sqr) (Fin (real (n - 1)))))"

text \<open>
  \<^verbatim>\<open>Series.rolling(window=w).mean()\<close>: the cell at position \<open>i\<close> is the mean of the
  \<open>w\<close> cells ending at \<open>i\<close>; it is not-a-number while fewer than \<open>w\<close> cells are
  available, and when a cell of the window is not a finite number (pandas turns the
  infinities into not-a-number before it rolls, and asks for \<open>w\<close> valid observations).
\<close>

definition window_mean :: "fval list \<Rightarrow> fval" where
  "window_mean ws =
     (if list_all isfinite ws then Fin (sum_list (map fin_val ws) / real (length ws))
      else NaN)"

definition rolling_mean :: "nat \<Rightarrow> fval list \<Rightarrow> fval list" where
  "rolling_mean w vs =
     map (\<lambda>i. if i + 1 < w then NaN else window_mean (take w (drop (i + 1 - w) vs)))
       [0..<length vs]"

text \<open>
  \<^verbatim>\<open>Series.pct_change()\<close>: the first cell is not-a-number, every other cell is the
  cell over its predecessor, minus one. Where the release pads (\<open>pad\<close>), each
  not-a-number cell is first replaced by the last cell before it that is a number, if
  there is one (\<^verbatim>\<open>fillna(method='pad')\<close>; an infinity is a number here).
\<close>

fun ffill_from :: "fval \<Rightarrow> fval list \<Rightarrow> fval list" where
  "ffill_from valid [] = []"
| "ffill_from valid (v # vs) =
     (if isna v then valid # ffill_from valid vs else v # ffill_from v vs)"

definition ffill :: "fval list \<Rightarrow> fval list" where
  "ffill vs = ffill_from NaN vs"

definition pct_change :: "bool \<Rightarrow> fval list \<Rightarrow> fval list" where
  "pct_change pad vs =
     (let data = (if pad then ffill vs else vs)
      in map (\<lambda>i. if i = 0 then NaN
                  else fsub (fdiv (data ! i) (data ! (i - 1))) (Fin 1))
           [0..<length data])"

subsection \<open>Data frames\<close>

text \<open>
  A \<^verbatim>\<open>DataFrame\<close> is its row index and its named columns, in order. Assigning to a
  column, \<^verbatim>\<open>df[name] = values\<close>, replaces the column of that name where it stands or
  appends a new one: that is \<open>AList.update\<close>.
\<close>

record ('i, 'c) frame =
  index :: "'i list"
  columns :: "(string \<times> 'c list) list"

definition empty_frame :: "('i, 'c) frame \<Rightarrow> bool" where
  "empty_frame df \<longleftrightarrow> index df = [] \<or> columns df = []"

definition set_column :: "string \<Rightarrow> 'c list \<Rightarrow> ('i, 'c) frame \<Rightarrow> ('i, 'c) frame" where
  "set_column name vs df = df\<lparr>columns := AList.update name vs (columns df)\<rparr>"

definition tail :: "nat \<Rightarrow> ('i, 'c) frame \<Rightarrow> ('i, 'c) frame" where
  "tail n df =
     \<lparr>index = drop (length (index df) - n) (index df),
      columns = map (\<lambda>(name, vs). (name, drop (length vs - n) vs)) (columns df)\<rparr>"

datatype error =
    KeyError string | IndexError | ValueError | AttributeError | TypeError
  | ConnectionError | JSONDecodeError

definition get_column :: "('i, 'c) frame \<Rightarrow> string \<Rightarrow> error + 'c list" where
  "get_column df name =
     (case map_of (columns df) name of None \<Rightarrow> Inl (KeyError name) | Some vs \<Rightarrow> Inr vs)"

text \<open>\<^verbatim>\<open>s.iloc[-k]\<close>: the \<open>k\<close>-th cell from the end, an IndexError when there is none.\<close>

definition iloc_neg :: "'c list \<Rightarrow> nat \<Rightarrow> error + 'c" where
  "iloc_neg vs k =
     (if 0 < k \<and> k \<le> length vs then Inr (vs ! (length vs - k)) else Inl IndexError)"

text \<open>
  A time series as \<^verbatim>\<open>fetch_stock_data\<close> returns it: the five price columns, each as
  long as the index.
\<close>

definition series_columns :: "string list" where
  "series_columns = [''Open'', ''High'', ''Low'', ''Close'', ''Volume'']"

definition well_formed :: "('i, 'c) frame \<Rightarrow> bool" where
  "well_formed df \<longleftrightarrow> list_all (\<lambda>c. length (snd c) = length (index df)) (columns df)"

definition price_series :: "('i, 'c) frame \<Rightarrow> bool" where
  "price_series df \<longleftrightarrow> map fst (columns df) = series_columns \<and> well_formed df"

subsection \<open>calculate\_metrics\<close>

text \<open>
  The source assigns the derived columns to the frame it was given and returns that same
  frame beside the metrics. The frame is an object shared with the caller, so the model
  keeps the frames in a store addressed by reference: the function takes the store and
  the reference (\<open>None\<close> for Python's \<^verbatim>\<open>None\<close>) and returns the store it leaves and
  either the error it raised or its value: \<open>EmptyDict\<close> for the \<^verbatim>\<open>{}\<close> of line 71,
  \<open>Result\<close> for the pair of line 96. The library \<open>pd\<close> decides how
  \<^verbatim>\<open>pct_change\<close> treats a not-a-number cell.
\<close>

type_synonym 'i heap = "nat \<Rightarrow> ('i, fval) frame"

record metrics =
  current_price :: fval
  daily_change :: fval
  daily_change_pct :: fval
  volume :: fval
  high_52w :: fval
  low_52w :: fval
  avg_volume :: fval
  volatility :: fval
  ma_20 :: "fval option"
  ma_50 :: "fval option"

datatype ret = EmptyDict | Result metrics nat

text \<open>\<^verbatim>\<open>df[target] = f(df[source])\<close> on the frame at \<open>r\<close>.\<close>

definition assign_derived ::
  "string \<Rightarrow> string \<Rightarrow> (fval list \<Rightarrow> fval list) \<Rightarrow> 'i heap \<Rightarrow> nat \<Rightarrow> 'i heap \<times> (error + unit)" where
  "assign_derived target source f h r =
     (case get_column (h r) source of
        Inl e \<Rightarrow> (h, Inl e)
      | Inr vs \<Rightarrow> (h(r := set_column target (f vs) (h r)), Inr ()))"

text \<open>\<^verbatim>\<open>df[name].iloc[-1]\<close> and a reduction \<^verbatim>\<open>df[name].g()\<close>.\<close>

definition last_of :: "('i, fval) frame \<Rightarrow> string \<Rightarrow> error + fval" where
  "last_of df name =
     (case get_column df name of Inl e \<Rightarrow> Inl e | Inr vs \<Rightarrow> iloc_neg vs 1)"

definition reduce_of :: "('i, fval) frame \<Rightarrow> string \<Rightarrow> (fval list \<Rightarrow> fval) \<Rightarrow> error + fval" where
  "reduce_of df name g =
     (case get_column df name of Inl e \<Rightarrow> Inl e | Inr vs \<Rightarrow> Inr (g vs))"

text \<open>\<^verbatim>\<open>x if not pd.isna(x) else None\<close>, lines 92 and 93.\<close>

definition optional :: "fval \<Rightarrow> fval option" where
  "optional x = (if \<not> isna x then Some x else None)"

text \<open>The dictionary of lines 83-94, its entries evaluated in the order written.\<close>

definition metrics_dict :: "('i, fval) frame \<Rightarrow> fval \<Rightarrow> fval \<Rightarrow> error + metrics" where
  "metrics_dict df latest_price previous_price =
     (case last_of df ''Volume'' of Inl e \<Rightarrow> Inl e | Inr vol \<Rightarrow>
      case reduce_of df ''High'' series_max of Inl e \<Rightarrow> Inl e | Inr hi \<Rightarrow>
      case reduce_of df ''Low'' series_min of Inl e \<Rightarrow> Inl e | Inr lo \<Rightarrow>
      case reduce_of df ''Volume'' series_mean of Inl e \<Rightarrow> Inl e | Inr avg \<Rightarrow>
      case reduce_of df ''Daily_Return'' series_std of Inl e \<Rightarrow> Inl e | Inr sd \<Rightarrow>
      case last_of df ''MA_20'' of Inl e \<Rightarrow> Inl e | Inr m20 \<Rightarrow>
      case last_of df ''MA_50'' of Inl e \<Rightarrow> Inl e | Inr m50 \<Rightarrow>
        Inr \<lparr>current_price = latest_price,
             daily_change = fsub latest_price previous_price,
             daily_change_pct =
               fmul (fdiv (fsub latest_price previous_price) previous_price) (Fin 100),
             volume = vol,
             high_52w = hi,
             low_52w = lo,
             avg_volume = avg,
             volatility = fmul sd (Fin 100),
             ma_20 = optional m20,
             ma_50 = optional m50\<rparr>)"

definition calculate_metrics ::
  "'i pandas \<Rightarrow> 'i heap \<Rightarrow> nat option \<Rightarrow> 'i heap \<times> (error + ret)" where
  "calculate_metrics pd h df =
     (case df of
        None \<Rightarrow> (h, Inr EmptyDict)
      | Some r \<Rightarrow>
          if empty_frame (h r) then (h, Inr EmptyDict)
          else
            case last_of (h r) ''Close'' of Inl e \<Rightarrow> (h, Inl e) | Inr latest_price \<Rightarrow>
            case (if 1 < length (index (h r))
                  then case get_column (h r) ''Close'' of
                         Inl e \<Rightarrow> Inl e | Inr vs \<Rightarrow> iloc_neg vs 2
                  else Inr latest_price) of Inl e \<Rightarrow> (h, Inl e) | Inr previous_price \<Rightarrow>
            case assign_derived ''MA_20'' ''Close'' (rolling_mean 20) h r of
              (h1, Inl e) \<Rightarrow> (h1, Inl e) | (h1, Inr _) \<Rightarrow>
            case assign_derived ''MA_50'' ''Close'' (rolling_mean 50) h1 r of
              (h2, Inl e) \<Rightarrow> (h2, Inl e) | (h2, Inr _) \<Rightarrow>
            case assign_derived ''Daily_Return'' ''Close''
                   (pct_change (pads_pct_change pd)) h2 r of
              (h3, Inl e) \<Rightarrow> (h3, Inl e) | (h3, Inr _) \<Rightarrow>
            case metrics_dict (h3 r) latest_price previous_price of
              Inl e \<Rightarrow> (h3, Inl e)
            | Inr m \<Rightarrow> (h3, Inr (Result m r)))"

subsection \<open>The provider's response\<close>

text \<open>
  \<^verbatim>\<open>requests.get\<close> either raises (a transport failure) or returns a response whose
  \<^verbatim>\<open>json()\<close> either raises (the body is not JSON) or returns the decoded body. The
  decoded values the model covers are null, strings and objects, nested at will; an
  object is given by its members in document order. The provider's wire format uses
  nothing else; a body with numbers, booleans or arrays, or one that is not an object at
  its top, is outside the model.
\<close>

datatype jval = JNull | JStr string | JObj "(string \<times> jval) list"

datatype response = TransportFailure | NotJson | Body "(string \<times> jval) list"

text \<open>
  The parameters of line 28-33. \<^verbatim>\<open>requests\<close> leaves a parameter whose value is
  \<^verbatim>\<open>None\<close> out of the query, so an unset key gives a request without
  \<^verbatim>\<open>apikey\<close>.
\<close>

record request =
  param_function :: string
  param_symbol :: string
  param_apikey :: "string option"
  param_outputsize :: string

text \<open>
  A Python dictionary built from members in order, as the JSON decoder builds it: a
  repeated key keeps its first position and takes the later value.
\<close>

definition py_dict :: "('k \<times> 'v) list \<Rightarrow> ('k \<times> 'v) list" where
  "py_dict ms = foldl (\<lambda>d (k, v). AList.update k v d) [] ms"

text \<open>The elements of a list in the order of their first occurrence.\<close>

definition first_seen :: "'a list \<Rightarrow> 'a list" where
  "first_seen xs = rev (remdups (rev xs))"

text \<open>Python's truth value of a decoded value, for \<^verbatim>\<open>not time_series\<close>.\<close>

fun truthy :: "jval \<Rightarrow> bool" where
  "truthy JNull = False"
| "truthy (JStr s) = (s \<noteq> [])"
| "truthy (JObj ms) = (ms \<noteq> [])"

fun is_obj :: "jval \<Rightarrow> bool" where
  "is_obj (JObj _) = True"
| "is_obj _ = False"

fun members :: "jval \<Rightarrow> (string \<times> jval) list" where
  "members (JObj ms) = py_dict ms"
| "members _ = []"

text \<open>What the source tells the user: \<^verbatim>\<open>st.error\<close> and \<^verbatim>\<open>st.warning\<close> calls.\<close>

datatype notice =
    ProviderError string jval
  | RateLimitWarning
  | NoDataFound string
  | ExceptionCaught string error

subsection \<open>Building the frame\<close>

text \<open>
  The records of a series as Python has them: the dictionary of the keys, each with the
  dictionary of its fields. The field names in the order they are first met are the
  columns \<^verbatim>\<open>from_dict\<close> makes, and the cell of a key and a field is the field's
  value, missing (\<open>None\<close>) when the record lacks the field.
\<close>

type_synonym records = "(string \<times> (string \<times> jval) list) list"

definition records :: "(string \<times> jval) list \<Rightarrow> records" where
  "records ms = map (\<lambda>(k, v). (k, members v)) (py_dict ms)"

definition field_names :: "records \<Rightarrow> string list" where
  "field_names recs = first_seen (concat (map (\<lambda>(k, s). map fst s) recs))"

definition cell :: "records \<Rightarrow> string \<Rightarrow> string \<Rightarrow> jval option" where
  "cell recs k c = (case map_of recs k of None \<Rightarrow> None | Some s \<Rightarrow> map_of s c)"

text \<open>
  The keys that become rows: all of them, in order, where the release keeps a record with
  no field; otherwise the keys in the order the columns first meet them, which leaves out
  a record with no field.
\<close>

definition row_keys :: "bool \<Rightarrow> records \<Rightarrow> string list" where
  "row_keys keeps_empty recs =
     (if keeps_empty then map fst recs
      else first_seen (concat (map (\<lambda>c.
             map fst (filter (\<lambda>(k, s). c \<in> set (map fst s)) recs)) (field_names recs))))"

text \<open>
  \<^verbatim>\<open>pd.DataFrame.from_dict(time_series, orient='index')\<close> on a non-empty
  dictionary. When the first value is a dictionary, every value is read as one (a value
  that is none raises), and the frame has the rows, columns and cells above. Otherwise
  the values are one column. A value that is no dictionary at all has no
  \<^verbatim>\<open>values()\<close>.
\<close>

definition from_dict_index :: "bool \<Rightarrow> jval \<Rightarrow> error + (string, jval option) frame" where
  "from_dict_index keeps_empty ts =
     (case ts of
        JObj ms \<Rightarrow>
          (case py_dict ms of
             [] \<Rightarrow> Inr \<lparr>index = [], columns = []\<rparr>
           | (k0, v0) # rest \<Rightarrow>
               if is_obj v0 then
                 if list_all (\<lambda>(k, v). is_obj v) rest then
                   let recs = records ms;
                       idx = row_keys keeps_empty recs
                   in Inr \<lparr>index = idx,
                           columns = map (\<lambda>c. (c, map (\<lambda>k. cell recs k c) idx))
                                       (field_names recs)\<rparr>
                 else Inl AttributeError
               else Inr \<lparr>index = map fst ((k0, v0) # rest),
                         columns = [(''0'', map (\<lambda>(k, v). Some v) ((k0, v0) # rest))]\<rparr>)
      | _ \<Rightarrow> Inl AttributeError)"

text \<open>\<^verbatim>\<open>df.columns = names\<close>: a ValueError unless there is one name per column.\<close>

definition set_columns :: "string list \<Rightarrow> ('i, 'c) frame \<Rightarrow> error + ('i, 'c) frame" where
  "set_columns names df =
     (if length names = length (columns df)
      then Inr (df\<lparr>columns := zip names (map snd (columns df))\<rparr>)
      else Inl ValueError)"

text \<open>
  \<^verbatim>\<open>df.index = pd.to_datetime(df.index)\<close>, given how pandas reads one key as a
  date: one rejected key raises.
\<close>

definition set_index_datetime ::
  "(string \<Rightarrow> 'd option) \<Rightarrow> (string, 'c) frame \<Rightarrow> error + ('d, 'c) frame" where
  "set_index_datetime read df =
     (case those (map read (index df)) of
        None \<Rightarrow> Inl ValueError
      | Some ds \<Rightarrow> Inr \<lparr>index = ds, columns = columns df\<rparr>)"

text \<open>
  \<^verbatim>\<open>df.sort_index()\<close>: the rows in ascending order of the index. (Equal index
  values, which pandas may leave in any order, keep their order here.)
\<close>

definition sort_index :: "('d::linorder, 'c) frame \<Rightarrow> ('d, 'c) frame" where
  "sort_index df =
     (let order = sort_key (\<lambda>i. index df ! i) [0..<length (index df)]
      in \<lparr>index = map (\<lambda>i. index df ! i) order,
           columns = map (\<lambda>(name, vs). (name, map (\<lambda>i. vs ! i) order)) (columns df)\<rparr>)"

text \<open>
  \<^verbatim>\<open>pd.to_numeric\<close> on a column of decoded cells, given how pandas reads one
  string as a number: a string it rejects raises a ValueError, a dictionary in a cell a
  TypeError, and a missing or null cell is not-a-number.
\<close>

fun numeric_cell :: "(string \<Rightarrow> fval option) \<Rightarrow> jval option \<Rightarrow> error + fval" where
  "numeric_cell read None = Inr NaN"
| "numeric_cell read (Some JNull) = Inr NaN"
| "numeric_cell read (Some (JStr s)) =
     (case read s of None \<Rightarrow> Inl ValueError | Some x \<Rightarrow> Inr x)"
| "numeric_cell read (Some (JObj _)) = Inl TypeError"

text \<open>The first error of a list of results, or all the values.\<close>

fun collect :: "(error + 'a) list \<Rightarrow> error + 'a list" where
  "collect [] = Inr []"
| "collect (Inl e # _) = Inl e"
| "collect (Inr x # rs) = (case collect rs of Inl e \<Rightarrow> Inl e | Inr xs \<Rightarrow> Inr (x # xs))"

text \<open>\<^verbatim>\<open>pd.to_numeric(df[col])\<close> for one column, and the loop of lines 59-60.\<close>

definition numeric_column ::
  "(string \<Rightarrow> fval option) \<Rightarrow> string \<times> jval option list \<Rightarrow> error + string \<times> fval list" where
  "numeric_column read c =
     (case collect (map (numeric_cell read) (snd c)) of
        Inl e \<Rightarrow> Inl e
      | Inr xs \<Rightarrow> Inr (fst c, xs))"

definition columns_to_numeric ::
  "(string \<Rightarrow> fval option) \<Rightarrow> ('d, jval option) frame \<Rightarrow> error + ('d, fval) frame" where
  "columns_to_numeric read df =
     (case collect (map (numeric_column read) (columns df)) of
        Inl e \<Rightarrow> Inl e
      | Inr cs \<Rightarrow> Inr \<lparr>index = index df, columns = cs\<rparr>)"

text \<open>Lines 53-62.\<close>

definition build_frame :: "'d::linorder pandas \<Rightarrow> jval \<Rightarrow> error + ('d, fval) frame" where
  "build_frame pd ts =
     (case from_dict_index (keeps_empty_records pd) ts of Inl e \<Rightarrow> Inl e | Inr df0 \<Rightarrow>
      case set_columns series_columns df0 of Inl e \<Rightarrow> Inl e | Inr df1 \<Rightarrow>
      case set_index_datetime (to_datetime pd) df1 of Inl e \<Rightarrow> Inl e | Inr df2 \<Rightarrow>
        columns_to_numeric (to_numeric pd) (sort_index df2))"

subsection \<open>fetch\_stock\_data\<close>

text \<open>
  The network is a function from the number of requests made so far and the request to
  the answer, so that the same request may be answered differently each time. The list of
  requests made is the state \<^verbatim>\<open>requests.get\<close> changes.
\<close>

type_synonym network = "nat \<Rightarrow> request \<Rightarrow> response"

definition requests_get :: "network \<Rightarrow> request list \<Rightarrow> request \<Rightarrow> response \<times> request list" where
  "requests_get net sent p = (net (length sent) p, sent @ [p])"

definition params :: "string option \<Rightarrow> string \<Rightarrow> request" where
  "params API_KEY symbol =
     \<lparr>param_function = ''TIME_SERIES_DAILY'', param_symbol = symbol,
      param_apikey = API_KEY, param_outputsize = ''compact''\<rparr>"

text \<open>
  Lines 36-66, from the answer on: the notices shown and the value returned, \<open>None\<close>
  for Python's \<^verbatim>\<open>None\<close>. Every exception is caught at line 64.
\<close>

definition handle_response ::
  "'d::linorder pandas \<Rightarrow> string \<Rightarrow> response \<Rightarrow> notice list \<times> ('d, fval) frame option" where
  "handle_response pd symbol resp =
     (case resp of
        TransportFailure \<Rightarrow> ([ExceptionCaught symbol ConnectionError], None)
      | NotJson \<Rightarrow> ([ExceptionCaught symbol JSONDecodeError], None)
      | Body ms \<Rightarrow>
          let data = py_dict ms in
          if ''Error Message'' \<in> set (map fst data) then
            (case map_of data ''Error Message'' of
               None \<Rightarrow> ([ExceptionCaught symbol (KeyError ''Error Message'')], None)
             | Some msg \<Rightarrow> ([ProviderError symbol msg], None))
          else if ''Note'' \<in> set (map fst data) then ([RateLimitWarning], None)
          else
            let time_series =
                  (case map_of data ''Time Series (Daily)'' of
                     None \<Rightarrow> JObj [] | Some v \<Rightarrow> v)
            in if \<not> truthy time_series then ([NoDataFound symbol], None)
               else
                 (case build_frame pd time_series of
                    Inl e \<Rightarrow> ([ExceptionCaught symbol e], None)
                  | Inr df \<Rightarrow> ([], Some df)))"

definition fetch_stock_data ::
  "'d::linorder pandas \<Rightarrow> string option \<Rightarrow> network \<Rightarrow> request list \<Rightarrow> string \<Rightarrow>
     (notice list \<times> ('d, fval) frame option) \<times> request list" where
  "fetch_stock_data pd API_KEY net sent symbol =
     (case requests_get net sent (params API_KEY symbol) of
        (resp, sent') \<Rightarrow> (handle_response pd symbol resp, sent'))"

subsection \<open>The cache of line 23\<close>

text \<open>
  \<^verbatim>\<open>@st.cache_data(ttl=300)\<close> keeps, for each argument, the value the function
  returned and the time it was stored. A call finds the entry valid while the clock is
  below the time stored plus the ttl, and then returns the stored value without running
  the function; otherwise it runs the function and stores what it returned, whatever that
  is. The clock is a parameter of each call; the time the function itself takes is not
  modelled. Each call gets a copy of the stored value, so the model stores and returns
  frames as values.
\<close>

definition ttl :: real where
  "ttl = 300"

record 'd session =
  cache :: "string \<rightharpoonup> real \<times> ('d, fval) frame option"
  requests_sent :: "request list"

definition cached_fetch_stock_data ::
  "'d::linorder pandas \<Rightarrow> string option \<Rightarrow> network \<Rightarrow> real \<Rightarrow> 'd session \<Rightarrow> string \<Rightarrow>
     ('d, fval) frame option \<times> 'd session" where
  "cached_fetch_stock_data pd API_KEY net now s symbol =
     (let run =
        (case fetch_stock_data pd API_KEY net (requests_sent s) symbol of
           ((notices, v), sent') \<Rightarrow>
             (v, s\<lparr>cache := (cache s)(symbol \<mapsto> (now, v)), requests_sent := sent'\<rparr>))
      in case cache s symbol of
           None \<Rightarrow> run
         | Some (stored, v) \<Rightarrow> if now < stored + ttl then (v, s) else run)"

text \<open>\<^verbatim>\<open>st.cache_data.clear()\<close>.\<close>

definition clear :: "'d session \<Rightarrow> 'd session" where
  "clear s = s\<lparr>cache := Map.empty\<rparr>"

subsection \<open>main\<close>

text \<open>
  One run of the script, lines 160-287, as far as it decides what is fetched and computed:
  the widgets' values are the input, the rendering is left out. \<^verbatim>\<open>str.upper\<close> is
  modelled on ASCII letters.
\<close>

datatype period = Days30 | Days60 | Days90 | AllAvailable

record widgets =
  selected :: string
  custom_input :: string
  time_period :: period
  refresh :: bool

definition upper :: "string \<Rightarrow> string" where
  "upper s =
     map (\<lambda>c. let n = (of_char c :: nat) in
                if 97 \<le> n \<and> n \<le> 122 then char_of (n - 32) else c) s"

fun days_of :: "period \<Rightarrow> nat option" where
  "days_of Days30 = Some 30"
| "days_of Days60 = Some 60"
| "days_of Days90 = Some 90"
| "days_of AllAvailable = None"

text \<open>
  How a run ends: stopped by \<^verbatim>\<open>st.stop()\<close> at line 202; the dashboard with the
  metrics and the frame \<^verbatim>\<open>df\<close> that line 278 exports; the message of line 287; nothing
  to show; or an exception that nothing catches.
\<close>

datatype 'd outcome =
    Stopped
  | Dashboard metrics "('d, fval) frame"
  | Unable string
  | Nothing
  | Raised error

definition no_frame :: "('d, fval) frame" where
  "no_frame = \<lparr>index = [], columns = []\<rparr>"

text \<open>
  Lines 212-287, once the fetch has returned: the frames live in a store, the fetched one
  at reference 0 and, when a period is chosen, the frame \<^verbatim>\<open>df.tail(days)\<close> makes at
  reference 1. Unpacking the empty dictionary into two names would raise a ValueError.
\<close>

definition dashboard ::
  "'d pandas \<Rightarrow> period \<Rightarrow> string \<Rightarrow> ('d, fval) frame option \<Rightarrow> 'd outcome" where
  "dashboard pd period symbol fetched =
     (case fetched of
        None \<Rightarrow> Unable symbol
      | Some f \<Rightarrow>
          if empty_frame f then Unable symbol
          else
            let h = (\<lambda>r. no_frame)(0 := f);
                (df, h1) =
                  (case days_of period of
                     None \<Rightarrow> (0, h)
                   | Some days \<Rightarrow> (1, h(1 := tail days (h 0))))
            in case calculate_metrics pd h1 (Some df) of
                 (h2, Inl e) \<Rightarrow> Raised e
               | (h2, Inr EmptyDict) \<Rightarrow> Raised ValueError
               | (h2, Inr (Result metrics df_with_indicators)) \<Rightarrow> Dashboard metrics (h2 df))"

text \<open>
  Lines 160-210: the symbol chosen, the refresh button (which clears the cache and runs the
  script again, the button then released), the check of the key, and the fetch.
\<close>

definition main ::
  "'d::linorder pandas \<Rightarrow> string option \<Rightarrow> network \<Rightarrow> real \<Rightarrow> widgets \<Rightarrow> 'd session \<Rightarrow>
     'd outcome \<times> 'd session" where
  "main pd API_KEY net now w s0 =
     (let custom_symbol = upper (custom_input w);
          symbol = (if custom_symbol \<noteq> [] then custom_symbol else selected w);
          s = (if refresh w then clear s0 else s0)
      in if API_KEY = Some ''your_api_key_here'' then (Stopped, s)
         else if symbol \<noteq> [] then
           (case cached_fetch_stock_data pd API_KEY net now s symbol of
              (df, s') \<Rightarrow> (dashboard pd (time_period w) symbol df, s'))
         else (Nothing, s))"

subsection \<open>Dates of the examples\<close>

text \<open>
  The index of the example frames: a day, written as the number \<open>10000 * Y + 100 * M + D\<close>
  so that days order as dates do, or not-a-time, which \<^verbatim>\<open>sort_index\<close> puts last.
\<close>

datatype stamp = At nat | NaT

instantiation stamp :: linorder
begin

fun less_eq_stamp :: "stamp \<Rightarrow> stamp \<Rightarrow> bool" where
  "less_eq_stamp (At a) (At b) = (a \<le> b)"
| "less_eq_stamp NaT (At b) = False"
| "less_eq_stamp x NaT = True"

definition less_stamp :: "stamp \<Rightarrow> stamp \<Rightarrow> bool" where
  "less_stamp x y \<longleftrightarrow> x \<le> y \<and> \<not> y \<le> (x :: stamp)"

instance
proof
  fix x y z :: stamp
  show "x < y \<longleftrightarrow> x \<le> y \<and> \<not> y \<le> x" by (simp add: less_stamp_def)
  show "x \<le> x" by (cases x) simp_all
  show "x \<le> y \<Longrightarrow> y \<le> z \<Longrightarrow> x \<le> z" by (cases x; cases y; cases z) simp_all
  show "x \<le> y \<Longrightarrow> y \<le> x \<Longrightarrow> x = y" by (cases x; cases y) simp_all
  show "x \<le> y \<or> y \<le> x" by (cases x; cases y) auto
qed

end

subsection \<open>Example frames\<close>

definition five_bars :: "(stamp, fval) frame" where
  "five_bars =
     \<lparr>index = [At 1, At 2, At 3, At 4, At 5],
      columns =
        [(''Open'', [Fin 10, Fin 11, Fin 9, Fin 10, Fin 12]),
         (''High'', [Fin 11, Fin 13, Fin 10, Fin 12, Fin 16]),
         (''Low'', [Fin 9, Fin 10, Fin 8, Fin 10, Fin 11]),
         (''Close'', [Fin 10, Fin 12, Fin 9, Fin 11, Fin 15]),
         (''Volume'', [Fin 100, Fin 200, Fin 300, Fin 400, Fin 500])]\<rparr>"

definition zero_then_five :: "(stamp, fval) frame" where
  "zero_then_five =
     \<lparr>index = [At 1, At 2],
      columns =
        [(''Open'', [Fin 1, Fin 2]),
         (''High'', [Fin 1, Fin 5]),
         (''Low'', [Fin 0, Fin 2]),
         (''Close'', [Fin 0, Fin 5]),
         (''Volume'', [Fin 10, Fin 20])]\<rparr>"

definition flat_bars :: "nat \<Rightarrow> (stamp, fval) frame" where
  "flat_bars n =
     \<lparr>index = map At [0..<n],
      columns =
        [(''Open'', replicate n (Fin 100)),
         (''High'', replicate n (Fin 100)),
         (''Low'', replicate n (Fin 100)),
         (''Close'', replicate n (Fin 100)),
         (''Volume'', replicate n (Fin 1000))]\<rparr>"

text \<open>Twenty bars whose first closing price is not a number.\<close>

definition gap_bars :: "(stamp, fval) frame" where
  "gap_bars =
     \<lparr>index = map At [0..<20],
      columns =
        [(''Open'', replicate 20 (Fin 100)),
         (''High'', replicate 20 (Fin 100)),
         (''Low'', replicate 20 (Fin 100)),
         (''Close'', NaN # replicate 19 (Fin 100)),
         (''Volume'', replicate 20 (Fin 1000))]\<rparr>"

subsection \<open>Example readers, bodies and networks\<close>

text \<open>
  Readers for the provider's wire format, used in the examples below: a date
  \<^verbatim>\<open>YYYY-MM-DD\<close>, the strings \<^verbatim>\<open>NaT\<close> and \<^verbatim>\<open>nan\<close>, which pandas reads
  as not-a-time, and an unsigned decimal number. pandas reads more than these do.
\<close>

definition digit :: "char \<Rightarrow> nat option" where
  "digit c =
     (let n = (of_char c :: nat) in if 48 \<le> n \<and> n \<le> 57 then Some (n - 48) else None)"

definition number :: "string \<Rightarrow> nat option" where
  "number s =
     (if s \<noteq> [] \<and> list_all (\<lambda>c. digit c \<noteq> None) s
      then Some (foldl (\<lambda>a c. 10 * a + the (digit c)) 0 s)
      else None)"

definition iso_date :: "string \<Rightarrow> stamp option" where
  "iso_date s =
     (if s = ''NaT'' \<or> s = ''nan'' then Some NaT
      else if length s = 10 \<and> s ! 4 = CHR ''-'' \<and> s ! 7 = CHR ''-'' then
        (case (number (take 4 s), number (take 2 (drop 5 s)), number (drop 8 s)) of
           (Some y, Some m, Some d) \<Rightarrow>
             if 1 \<le> m \<and> m \<le> 12 \<and> 1 \<le> d \<and> d \<le> 31
             then Some (At (10000 * y + 100 * m + d)) else None
         | _ \<Rightarrow> None)
      else None)"

definition decimal :: "string \<Rightarrow> fval option" where
  "decimal s =
     (let ip = takeWhile (\<lambda>c. c \<noteq> CHR ''.'') s;
          fp = drop (length ip + 1) s
      in case (number ip, if fp = [] then Some 0 else number fp) of
           (Some i, Some f) \<Rightarrow> Some (Fin (real i + real f / 10 ^ length fp))
         | _ \<Rightarrow> None)"

text \<open>
  Two libraries with these readers: one that pads in \<^verbatim>\<open>pct_change\<close> and drops a
  record with no field, as a release before 3.0, and one that does neither, as release 3.
\<close>

definition pandas_2 :: "stamp pandas" where
  "pandas_2 =
     \<lparr>to_datetime = iso_date, to_numeric = decimal,
      pads_pct_change = True, keeps_empty_records = False\<rparr>"

definition pandas_3 :: "stamp pandas" where
  "pandas_3 =
     \<lparr>to_datetime = iso_date, to_numeric = decimal,
      pads_pct_change = False, keeps_empty_records = True\<rparr>"

definition bar :: "string \<Rightarrow> string \<Rightarrow> string \<Rightarrow> string \<Rightarrow> string \<Rightarrow> jval" where
  "bar op hi lo cl vo =
     JObj [(''1. open'', JStr op), (''2. high'', JStr hi), (''3. low'', JStr lo),
           (''4. close'', JStr cl), (''5. volume'', JStr vo)]"

text \<open>A body as the provider sends it, the latest day first.\<close>

definition daily_body :: "(string \<times> jval) list" where
  "daily_body =
     [(''Meta Data'', JObj [(''2. Symbol'', JStr ''IBM'')]),
      (''Time Series (Daily)'',
         JObj [(''2024-01-04'', bar ''11.5'' ''12'' ''11'' ''11.25'' ''300''),
               (''2024-01-03'', bar ''10.5'' ''12'' ''10'' ''11.5'' ''200''),
               (''2024-01-02'', bar ''10'' ''11'' ''9.5'' ''10.5'' ''100'')])]"

definition daily_frame :: "(stamp, fval) frame" where
  "daily_frame =
     \<lparr>index = [At 20240102, At 20240103, At 20240104],
      columns =
        [(''Open'', [Fin 10, Fin (21 / 2), Fin (23 / 2)]),
         (''High'', [Fin 11, Fin 12, Fin 12]),
         (''Low'', [Fin (19 / 2), Fin 10, Fin 11]),
         (''Close'', [Fin (21 / 2), Fin (23 / 2), Fin (45 / 4)]),
         (''Volume'', [Fin 100, Fin 200, Fin 300])]\<rparr>"

text \<open>
  A body with two records whose keys pandas reads as not-a-time, and the frame the fetch
  makes of it.
\<close>

definition undated_body :: "(string \<times> jval) list" where
  "undated_body =
     [(''Time Series (Daily)'',
         JObj [(''NaT'', bar ''7'' ''7'' ''7'' ''7'' ''70''),
               (''2024-01-02'', bar ''10'' ''11'' ''9.5'' ''10.5'' ''100''),
               (''nan'', bar ''7'' ''7'' ''7'' ''7'' ''70'')])]"

definition undated_frame :: "(stamp, fval) frame" where
  "undated_frame =
     \<lparr>index = [At 20240102, NaT, NaT],
      columns =
        [(''Open'', [Fin 10, Fin 7, Fin 7]),
         (''High'', [Fin 11, Fin 7, Fin 7]),
         (''Low'', [Fin (19 / 2), Fin 7, Fin 7]),
         (''Close'', [Fin (21 / 2), Fin 7, Fin 7]),
         (''Volume'', [Fin 100, Fin 70, Fin 70])]\<rparr>"

definition error_body :: "(string \<times> jval) list" where
  "error_body = [(''Error Message'', JStr ''Invalid API call.'')]"

definition note_body :: "(string \<times> jval) list" where
  "note_body = [(''Note'', JStr ''Thank you for using Alpha Vantage!'')]"

definition empty_body :: "(string \<times> jval) list" where
  "empty_body = [(''Time Series (Daily)'', JObj [])]"

text \<open>
  A network that always gives the same answer, and one that answers the first request
  with the body above and fails from then on.
\<close>

definition answering :: "response \<Rightarrow> network" where
  "answering resp = (\<lambda>n p. resp)"

definition failing_after_first :: network where
  "failing_after_first = (\<lambda>n p. if n = 0 then Body daily_body else TransportFailure)"

definition cold :: "stamp session" where
  "cold = \<lparr>cache = Map.empty, requests_sent = []\<rparr>"

definition default_widgets :: widgets where
  "default_widgets =
     \<lparr>selected = ''AAPL'', custom_input = [], time_period = Days30, refresh = False\<rparr>"

text \<open>
  The failures of a fetch: the transport failure and the undecodable body (caught at line
  64), the provider error (line 38), the rate limit (line 42), the missing or empty
  series (line 48), and a series that cannot be made into a frame (caught at line 64).
\<close>

definition is_failure :: "'d::linorder pandas \<Rightarrow> response \<Rightarrow> bool" where
  "is_failure pd resp =
     (case resp of
        TransportFailure \<Rightarrow> True
      | NotJson \<Rightarrow> True
      | Body ms \<Rightarrow>
          ''Error Message'' \<in> set (map fst ms) \<or> ''Note'' \<in> set (map fst ms) \<or>
          (case map_of (py_dict ms) ''Time Series (Daily)'' of
             None \<Rightarrow> True
           | Some v \<Rightarrow>
               \<not> truthy v \<or>
               (case build_frame pd v of
                  Inl e \<Rightarrow> True | Inr df \<Rightarrow> False)))"

text \<open>A session whose entry for IBM was stored at time 0, after one request.\<close>

definition stale :: "stamp session" where
  "stale =
     \<lparr>cache = [''IBM'' \<mapsto> (0, Some daily_frame)],
      requests_sent = [params (Some ''demo'') ''IBM'']\<rparr>"

text \<open>
  Row \<open>i\<close> of a frame is the record of key \<open>k\<close>: its index value is the date the key
  is read as, and its cells are, column by column, the numbers the fields of the record
  are read as, the fields taken in the order they were first met.
\<close>

definition row_of_record ::
  "'d pandas \<Rightarrow> records \<Rightarrow> ('d, fval) frame \<Rightarrow> nat \<Rightarrow> string \<Rightarrow> bool" where
  "row_of_record pd recs df i k \<longleftrightarrow>
     to_datetime pd k = Some (index df ! i) \<and>
     list_all (\<lambda>j. numeric_cell (to_numeric pd) (cell recs k (field_names recs ! j)) =
                   Inr (snd (columns df ! j) ! i))
       [0..<length (columns df)]"

text \<open>A body whose only record has a null closing price.\<close>

definition null_close_body :: "(string \<times> jval) list" where
  "null_close_body =
     [(''Time Series (Daily)'',
         JObj [(''2024-01-02'',
                JObj [(''1. open'', JStr ''10''), (''2. high'', JStr ''11''),
                      (''3. low'', JStr ''9.5''), (''4. close'', JNull),
                      (''5. volume'', JStr ''100'')])])]"

section \<open>Properties of calculate\_metrics\<close>

lemma price_series_cols:
  assumes "price_series df"
  obtains op hi lo cl vo where
    "columns df =
       [(''Open'', op), (''High'', hi), (''Low'', lo), (''Close'', cl), (''Volume'', vo)]"
    "length cl = length (index df)" "length vo = length (index df)"
proof -
  from assms have m: "map fst (columns df) = [''Open'', ''High'', ''Low'', ''Close'', ''Volume'']"
    and w: "list_all (\<lambda>c. length (snd c) = length (index df)) (columns df)"
    by (simp_all add: price_series_def series_columns_def well_formed_def)
  from m obtain a b c d e where cs: "columns df = [a, b, c, d, e]"
    by (auto simp: map_eq_Cons_conv)
  with m have "a = (''Open'', snd a)" "b = (''High'', snd b)" "c = (''Low'', snd c)"
    "d = (''Close'', snd d)" "e = (''Volume'', snd e)"
    by (auto simp: prod_eq_iff)
  with cs have "columns df =
      [(''Open'', snd a), (''High'', snd b), (''Low'', snd c), (''Close'', snd d),
       (''Volume'', snd e)]"
    by simp
  moreover from w cs have "length (snd d) = length (index df)"
    "length (snd e) = length (index df)"
    by simp_all
  ultimately show thesis using that by blast
qed

lemma length_rolling_mean: "length (rolling_mean w vs) = length vs"
  by (simp add: rolling_mean_def)

lemma last_rolling_mean:
  "vs \<noteq> [] \<Longrightarrow> rolling_mean w vs ! (length vs - Suc 0) =
     (if length vs < w then NaN else window_mean (take w (drop (length vs - w) vs)))"
  by (auto simp add: rolling_mean_def)

text \<open>What the call does on a non-empty frame that has the five price columns.\<close>

lemma calculate_metrics_cols:
  assumes cs: "columns (h r) =
      [(''Open'', op), (''High'', hi), (''Low'', lo), (''Close'', cl), (''Volume'', vo)]"
    and n: "index (h r) \<noteq> []"
    and lc: "length cl = length (index (h r))" and lv: "length vo = length (index (h r))"
  shows "calculate_metrics pd h (Some r) =
     (h(r := (h r)\<lparr>columns := columns (h r) @
          [(''MA_20'', rolling_mean 20 cl), (''MA_50'', rolling_mean 50 cl),
           (''Daily_Return'', pct_change (pads_pct_change pd) cl)]\<rparr>),
      Inr (Result
        \<lparr>current_price = cl ! (length cl - 1),
         daily_change =
           fsub (cl ! (length cl - 1)) (cl ! (length cl - (if 1 < length cl then 2 else 1))),
         daily_change_pct =
           fmul (fdiv (fsub (cl ! (length cl - 1))
                         (cl ! (length cl - (if 1 < length cl then 2 else 1))))
                   (cl ! (length cl - (if 1 < length cl then 2 else 1)))) (Fin 100),
         volume = vo ! (length vo - 1),
         high_52w = series_max hi,
         low_52w = series_min lo,
         avg_volume = series_mean vo,
         volatility = fmul (series_std (pct_change (pads_pct_change pd) cl)) (Fin 100),
         ma_20 = optional (rolling_mean 20 cl ! (length cl - 1)),
         ma_50 = optional (rolling_mean 50 cl ! (length cl - 1))\<rparr> r))"
proof -
  from n lc lv have pos: "0 < length cl" "0 < length vo" by simp_all
  have e: "\<not> empty_frame (h r)" using n cs by (simp add: empty_frame_def)
  have lp: "last_of (h r) ''Close'' = Inr (cl ! (length cl - 1))"
    using pos by (simp add: last_of_def get_column_def cs iloc_neg_def Suc_le_eq)
  have gc: "get_column (h r) ''Close'' = Inr cl"
    by (simp add: get_column_def cs)
  show ?thesis
    using pos
    by (simp add: calculate_metrics_def e lp gc lc [symmetric] iloc_neg_def
        assign_derived_def set_column_def get_column_def cs metrics_dict_def last_of_def
        reduce_of_def Suc_le_eq less_Suc_eq_0_disj length_rolling_mean)
qed

lemma calculate_metrics_None: "calculate_metrics pd h None = (h, Inr EmptyDict)"
  by (simp add: calculate_metrics_def)

lemma calculate_metrics_empty_frame:
  "empty_frame (h r) \<Longrightarrow> calculate_metrics pd h (Some r) = (h, Inr EmptyDict)"
  by (simp add: calculate_metrics_def)

lemma calculate_metrics_empty:
  "index (h r) = [] \<Longrightarrow> calculate_metrics pd h (Some r) = (h, Inr EmptyDict)"
  by (simp add: calculate_metrics_def empty_frame_def)

lemma price_series_five_bars: "price_series five_bars"
  by (simp add: price_series_def series_columns_def well_formed_def five_bars_def)

lemma price_series_zero_then_five: "price_series zero_then_five"
  by (simp add: price_series_def series_columns_def well_formed_def zero_then_five_def)

lemma price_series_flat_bars: "price_series (flat_bars n)"
  by (simp add: price_series_def series_columns_def well_formed_def flat_bars_def)

lemma price_series_gap_bars: "price_series gap_bars"
  by (simp add: price_series_def series_columns_def well_formed_def gap_bars_def)

lemma pct_change_five_bars:
  "pct_change pad [Fin 10, Fin 12, Fin 9, Fin 11, Fin 15] =
     [NaN, Fin (1/5), Fin (- 1/4), Fin (2/9), Fin (4/11)]"
  by (simp add: pct_change_def ffill_def upt_rec fsub_def)

lemma pct_change_zero_then_five: "pct_change pad [Fin 0, Fin 5] = [NaN, PInf]"
  by (simp add: pct_change_def ffill_def upt_rec fsub_def inf_of_sign_def)

lemma pct_zero_previous:
  "fmul (fdiv (fsub (Fin x) (Fin 0)) (Fin 0)) (Fin 100) =
     (if x = 0 then NaN else if 0 < x then PInf else NInf)"
  by (simp add: fsub_def inf_of_sign_def)

subsection \<open>C1: the input frame\<close>

text \<open>
  Claim C1 says that \<^verbatim>\<open>calculate_metrics\<close> leaves the caller's series object
  unchanged. On the five-bar series the object at the caller's reference is a different
  frame after the call, with either library: lines 77, 78 and 81 assign three columns to
  it.
\<close>

theorem calculate_metrics_mutates_input_counterexample:
  "fst (calculate_metrics pandas_3 (\<lambda>_. five_bars) (Some 0)) 0 \<noteq> five_bars \<and>
   fst (calculate_metrics pandas_2 (\<lambda>_. five_bars) (Some 0)) 0 \<noteq> five_bars"
proof -
  have "columns (fst (calculate_metrics pd (\<lambda>_. five_bars) (Some 0)) 0) \<noteq> columns five_bars"
    for pd :: "stamp pandas"
    using calculate_metrics_cols [of "\<lambda>_. five_bars" 0
        "[Fin 10, Fin 11, Fin 9, Fin 10, Fin 12]" "[Fin 11, Fin 13, Fin 10, Fin 12, Fin 16]"
        "[Fin 9, Fin 10, Fin 8, Fin 10, Fin 11]" "[Fin 10, Fin 12, Fin 9, Fin 11, Fin 15]"
        "[Fin 100, Fin 200, Fin 300, Fin 400, Fin 500]" pd]
    by (simp add: five_bars_def)
  from this [of pandas_3] this [of pandas_2] show ?thesis by metis
qed

text \<open>
  C1, as the code has it: on a missing series and on an empty one
  \<^verbatim>\<open>calculate_metrics\<close> returns the empty dictionary and changes nothing. On a
  non-empty series it appends the columns \<^verbatim>\<open>MA_20\<close>, \<^verbatim>\<open>MA_50\<close> and
  \<^verbatim>\<open>Daily_Return\<close>, computed from \<^verbatim>\<open>Close\<close> (the last as the library computes
  \<^verbatim>\<open>pct_change\<close>), to the frame it was given, and returns that same frame. The index
  and the five price columns of the frame stay as they were, and no other object of the
  store changes.
\<close>

theorem calculate_metrics_assigns_in_place:
  "calculate_metrics pd h None = (h, Inr EmptyDict) \<and>
   (empty_frame (h r) \<longrightarrow> calculate_metrics pd h (Some r) = (h, Inr EmptyDict)) \<and>
   (price_series (h r) \<and> index (h r) \<noteq> [] \<and> get_column (h r) ''Close'' = Inr cl \<longrightarrow>
      (\<exists>m. calculate_metrics pd h (Some r) =
        (h(r := (h r)\<lparr>columns := columns (h r) @
            [(''MA_20'', rolling_mean 20 cl), (''MA_50'', rolling_mean 50 cl),
             (''Daily_Return'', pct_change (pads_pct_change pd) cl)]\<rparr>),
         Inr (Result m r))))"
proof (intro conjI impI)
  show "calculate_metrics pd h None = (h, Inr EmptyDict)"
    by (rule calculate_metrics_None)
next
  assume "empty_frame (h r)"
  then show "calculate_metrics pd h (Some r) = (h, Inr EmptyDict)"
    by (rule calculate_metrics_empty_frame)
next
  assume a: "price_series (h r) \<and> index (h r) \<noteq> [] \<and> get_column (h r) ''Close'' = Inr cl"
  then obtain op hi lo cl' vo where
    cs: "columns (h r) =
       [(''Open'', op), (''High'', hi), (''Low'', lo), (''Close'', cl'), (''Volume'', vo)]"
    and len: "length cl' = length (index (h r))" "length vo = length (index (h r))"
    using price_series_cols [of "h r"] by blast
  from a cs have "cl' = cl" by (simp add: get_column_def)
  moreover from a have ne: "index (h r) \<noteq> []" by simp
  ultimately show "\<exists>m. calculate_metrics pd h (Some r) =
        (h(r := (h r)\<lparr>columns := columns (h r) @
            [(''MA_20'', rolling_mean 20 cl), (''MA_50'', rolling_mean 50 cl),
             (''Daily_Return'', pct_change (pads_pct_change pd) cl)]\<rparr>),
         Inr (Result m r))"
    using calculate_metrics_cols [of h r, OF cs ne len, of pd] by blast
qed

theorem calculate_metrics_assigns_in_place_witness:
  "calculate_metrics pandas_3 (\<lambda>_. five_bars) None = (\<lambda>_. five_bars, Inr EmptyDict) \<and>
   empty_frame (flat_bars 0) \<and>
   calculate_metrics pandas_3 (\<lambda>_. flat_bars 0) (Some 0) = (\<lambda>_. flat_bars 0, Inr EmptyDict) \<and>
   price_series five_bars \<and> index five_bars \<noteq> [] \<and>
   (\<exists>m. calculate_metrics pandas_3 (\<lambda>_. five_bars) (Some 0) =
      ((\<lambda>_. five_bars)(0 := five_bars\<lparr>columns := columns five_bars @
          [(''MA_20'', [NaN, NaN, NaN, NaN, NaN]), (''MA_50'', [NaN, NaN, NaN, NaN, NaN]),
           (''Daily_Return'', [NaN, Fin (1/5), Fin (- 1/4), Fin (2/9), Fin (4/11)])]\<rparr>),
       Inr (Result m 0))) \<and>
   (\<exists>m. calculate_metrics pandas_2 (\<lambda>_. five_bars) (Some 0) =
      ((\<lambda>_. five_bars)(0 := five_bars\<lparr>columns := columns five_bars @
          [(''MA_20'', [NaN, NaN, NaN, NaN, NaN]), (''MA_50'', [NaN, NaN, NaN, NaN, NaN]),
           (''Daily_Return'', [NaN, Fin (1/5), Fin (- 1/4), Fin (2/9), Fin (4/11)])]\<rparr>),
       Inr (Result m 0)))"
proof -
  have g: "get_column five_bars ''Close'' = Inr [Fin 10, Fin 12, Fin 9, Fin 11, Fin 15]"
    by (simp add: get_column_def five_bars_def)
  have i: "index five_bars \<noteq> []" by (simp add: five_bars_def)
  have e: "empty_frame (flat_bars 0)" by (simp add: empty_frame_def flat_bars_def)
  have r20: "rolling_mean 20 [Fin 10, Fin 12, Fin 9, Fin 11, Fin 15] = [NaN, NaN, NaN, NaN, NaN]"
    by (simp add: rolling_mean_def upt_rec)
  have r50: "rolling_mean 50 [Fin 10, Fin 12, Fin 9, Fin 11, Fin 15] = [NaN, NaN, NaN, NaN, NaN]"
    by (simp add: rolling_mean_def upt_rec)
  show ?thesis
    using calculate_metrics_assigns_in_place [of pandas_3 "\<lambda>_. five_bars" 0
        "[Fin 10, Fin 12, Fin 9, Fin 11, Fin 15]"]
      calculate_metrics_assigns_in_place [of pandas_2 "\<lambda>_. five_bars" 0
        "[Fin 10, Fin 12, Fin 9, Fin 11, Fin 15]"]
      calculate_metrics_assigns_in_place [of pandas_3 "\<lambda>_. flat_bars 0" 0]
      price_series_five_bars g i e
    by (simp add: r20 r50 pct_change_five_bars)
qed

subsection \<open>C7: the moving averages\<close>

text \<open>
  Claim C7 says that on a series of at least 20 bars \<^verbatim>\<open>ma_20\<close> is the mean of the
  last 20 closing prices. On the series of 20 bars whose first closing price is not a
  number, the call returns metrics whose \<^verbatim>\<open>ma_20\<close> is \<^verbatim>\<open>None\<close>, with either
  library.
\<close>

theorem ma_20_absent_on_twenty_bars_counterexample:
  "length (index gap_bars) = 20 \<and>
   (case snd (calculate_metrics pandas_3 (\<lambda>_. gap_bars) (Some 0)) of
      Inr (Result m r) \<Rightarrow> ma_20 m = None | _ \<Rightarrow> False) \<and>
   (case snd (calculate_metrics pandas_2 (\<lambda>_. gap_bars) (Some 0)) of
      Inr (Result m r) \<Rightarrow> ma_20 m = None | _ \<Rightarrow> False)"
proof -
  have "case snd (calculate_metrics pd (\<lambda>_. gap_bars) (Some 0)) of
      Inr (Result m r) \<Rightarrow> ma_20 m = None | _ \<Rightarrow> False" for pd :: "stamp pandas"
    using calculate_metrics_cols [of "\<lambda>_. gap_bars" 0
        "replicate 20 (Fin 100)" "replicate 20 (Fin 100)" "replicate 20 (Fin 100)"
        "NaN # replicate 19 (Fin 100)" "replicate 20 (Fin 1000)" pd]
      last_rolling_mean [of "NaN # replicate 19 (Fin 100)" 20]
    by (simp add: gap_bars_def window_mean_def optional_def)
  from this [of pandas_3] this [of pandas_2] show ?thesis
    by (simp add: gap_bars_def)
qed

text \<open>
  C7, as the code has it: on a series of fewer than 20 (50) bars \<^verbatim>\<open>ma_20\<close>
  (\<^verbatim>\<open>ma_50\<close>) is \<^verbatim>\<open>None\<close>, and the empty series gives the empty dictionary. On a
  series of at least 20 (50) bars it is the arithmetic mean of the last 20 (50) closing
  prices when these are all finite numbers, and \<^verbatim>\<open>None\<close> when one of them is
  not-a-number or an infinity.
\<close>

theorem moving_averages:
  assumes ts: "price_series (h r)" and g: "get_column (h r) ''Close'' = Inr cl"
  shows "(index (h r) = [] \<longrightarrow> snd (calculate_metrics pd h (Some r)) = Inr EmptyDict) \<and>
    (index (h r) \<noteq> [] \<longrightarrow>
      (\<exists>m. snd (calculate_metrics pd h (Some r)) = Inr (Result m r) \<and>
        (length cl < 20 \<longrightarrow> ma_20 m = None) \<and>
        (length cl < 50 \<longrightarrow> ma_50 m = None) \<and>
        (20 \<le> length cl \<and> list_all isfinite (drop (length cl - 20) cl) \<longrightarrow>
           ma_20 m = Some (Fin (sum_list (map fin_val (drop (length cl - 20) cl)) / 20))) \<and>
        (50 \<le> length cl \<and> list_all isfinite (drop (length cl - 50) cl) \<longrightarrow>
           ma_50 m = Some (Fin (sum_list (map fin_val (drop (length cl - 50) cl)) / 50))) \<and>
        (20 \<le> length cl \<and> \<not> list_all isfinite (drop (length cl - 20) cl) \<longrightarrow>
           ma_20 m = None) \<and>
        (50 \<le> length cl \<and> \<not> list_all isfinite (drop (length cl - 50) cl) \<longrightarrow>
           ma_50 m = None)))"
proof (intro conjI impI)
  assume "index (h r) = []"
  then show "snd (calculate_metrics pd h (Some r)) = Inr EmptyDict"
    by (simp add: calculate_metrics_empty)
next
  assume ne: "index (h r) \<noteq> []"
  from ts obtain op hi lo cl' vo where
    cs: "columns (h r) =
       [(''Open'', op), (''High'', hi), (''Low'', lo), (''Close'', cl'), (''Volume'', vo)]"
    and len: "length cl' = length (index (h r))" "length vo = length (index (h r))"
    by (rule price_series_cols)
  from g cs have eq: "cl' = cl" by (simp add: get_column_def)
  from ne len eq have nz: "cl \<noteq> []" by auto
  obtain m where res: "snd (calculate_metrics pd h (Some r)) = Inr (Result m r)"
    and m20: "ma_20 m = optional (rolling_mean 20 cl ! (length cl - 1))"
    and m50: "ma_50 m = optional (rolling_mean 50 cl ! (length cl - 1))"
    using calculate_metrics_cols [of h r, OF cs ne len, of pd] eq by simp
  have a: "length cl < 20 \<longrightarrow> ma_20 m = None"
    using nz by (simp add: m20 last_rolling_mean optional_def)
  have b: "length cl < 50 \<longrightarrow> ma_50 m = None"
    using nz by (simp add: m50 last_rolling_mean optional_def)
  have c: "20 \<le> length cl \<and> list_all isfinite (drop (length cl - 20) cl) \<longrightarrow>
           ma_20 m = Some (Fin (sum_list (map fin_val (drop (length cl - 20) cl)) / 20))"
    using nz by (simp add: m20 last_rolling_mean optional_def window_mean_def)
  have d: "50 \<le> length cl \<and> list_all isfinite (drop (length cl - 50) cl) \<longrightarrow>
           ma_50 m = Some (Fin (sum_list (map fin_val (drop (length cl - 50) cl)) / 50))"
    using nz by (simp add: m50 last_rolling_mean optional_def window_mean_def)
  have e: "20 \<le> length cl \<and> \<not> list_all isfinite (drop (length cl - 20) cl) \<longrightarrow>
           ma_20 m = None"
    using nz by (simp add: m20 last_rolling_mean optional_def window_mean_def)
  have f: "50 \<le> length cl \<and> \<not> list_all isfinite (drop (length cl - 50) cl) \<longrightarrow>
           ma_50 m = None"
    using nz by (simp add: m50 last_rolling_mean optional_def window_mean_def)
  from res a b c d e f
  show "\<exists>m. snd (calculate_metrics pd h (Some r)) = Inr (Result m r) \<and>
        (length cl < 20 \<longrightarrow> ma_20 m = None) \<and>
        (length cl < 50 \<longrightarrow> ma_50 m = None) \<and>
        (20 \<le> length cl \<and> list_all isfinite (drop (length cl - 20) cl) \<longrightarrow>
           ma_20 m = Some (Fin (sum_list (map fin_val (drop (length cl - 20) cl)) / 20))) \<and>
        (50 \<le> length cl \<and> list_all isfinite (drop (length cl - 50) cl) \<longrightarrow>
           ma_50 m = Some (Fin (sum_list (map fin_val (drop (length cl - 50) cl)) / 50))) \<and>
        (20 \<le> length cl \<and> \<not> list_all isfinite (drop (length cl - 20) cl) \<longrightarrow>
           ma_20 m = None) \<and>
        (50 \<le> length cl \<and> \<not> list_all isfinite (drop (length cl - 50) cl) \<longrightarrow>
           ma_50 m = None)"
    by blast
qed

theorem moving_averages_witness:
  "price_series (flat_bars 20) \<and> get_column (flat_bars 20) ''Close'' = Inr (replicate 20 (Fin 100)) \<and>
   price_series (flat_bars 50) \<and> price_series (flat_bars 19) \<and> price_series gap_bars \<and>
   (\<exists>m. snd (calculate_metrics pandas_3 (\<lambda>_. flat_bars 20) (Some 0)) = Inr (Result m 0) \<and>
        ma_20 m = Some (Fin 100) \<and> ma_50 m = None) \<and>
   (\<exists>m. snd (calculate_metrics pandas_3 (\<lambda>_. flat_bars 50) (Some 0)) = Inr (Result m 0) \<and>
        ma_20 m = Some (Fin 100) \<and> ma_50 m = Some (Fin 100)) \<and>
   (\<exists>m. snd (calculate_metrics pandas_3 (\<lambda>_. flat_bars 19) (Some 0)) = Inr (Result m 0) \<and>
        ma_20 m = None \<and> ma_50 m = None) \<and>
   (\<exists>m. snd (calculate_metrics pandas_3 (\<lambda>_. gap_bars) (Some 0)) = Inr (Result m 0) \<and>
        ma_20 m = None \<and> ma_50 m = None) \<and>
   snd (calculate_metrics pandas_3 (\<lambda>_. flat_bars 0) (Some 0)) = Inr EmptyDict"
proof -
  have g: "\<And>n. get_column (flat_bars n) ''Close'' = Inr (replicate n (Fin 100))"
    by (simp add: get_column_def flat_bars_def)
  have gg: "get_column gap_bars ''Close'' = Inr (NaN # replicate 19 (Fin 100))"
    by (simp add: get_column_def gap_bars_def)
  have i: "\<And>n. index (flat_bars n) = map At [0..<n]"
    by (simp add: flat_bars_def)
  have ig: "index gap_bars \<noteq> []"
    by (simp add: gap_bars_def)
  have f: "\<And>n k. list_all isfinite (replicate n (Fin k))"
    by (simp add: list_all_iff)
  show ?thesis
    using moving_averages [of "\<lambda>_. flat_bars 20" 0, OF price_series_flat_bars g, of pandas_3]
      moving_averages [of "\<lambda>_. flat_bars 50" 0, OF price_series_flat_bars g, of pandas_3]
      moving_averages [of "\<lambda>_. flat_bars 19" 0, OF price_series_flat_bars g, of pandas_3]
      moving_averages [of "\<lambda>_. flat_bars 0" 0, OF price_series_flat_bars g, of pandas_3]
      moving_averages [of "\<lambda>_. gap_bars" 0, OF price_series_gap_bars gg, of pandas_3] ig
    by (simp add: price_series_flat_bars price_series_gap_bars g i f sum_list_replicate) blast
qed

subsection \<open>C8: no error, and the percent change over a zero price\<close>

text \<open>
  Claim C8 says that the percent change is not-a-number or omitted when the previous price
  is zero. On the closing prices 0, 5 the entry \<^verbatim>\<open>daily_change_pct\<close> is present and
  is plus infinity, with either library.
\<close>

theorem percent_change_infinite_counterexample:
  "snd (calculate_metrics pandas_3 (\<lambda>_. zero_then_five) (Some 0)) =
     Inr (Result
       \<lparr>current_price = Fin 5, daily_change = Fin 5, daily_change_pct = PInf,
        volume = Fin 20, high_52w = Fin 5, low_52w = Fin 0, avg_volume = Fin 15,
        volatility = NaN, ma_20 = None, ma_50 = None\<rparr> 0)
   \<and> snd (calculate_metrics pandas_2 (\<lambda>_. zero_then_five) (Some 0)) =
     Inr (Result
       \<lparr>current_price = Fin 5, daily_change = Fin 5, daily_change_pct = PInf,
        volume = Fin 20, high_52w = Fin 5, low_52w = Fin 0, avg_volume = Fin 15,
        volatility = NaN, ma_20 = None, ma_50 = None\<rparr> 0)
   \<and> \<not> isna PInf"
proof -
  have "snd (calculate_metrics pd (\<lambda>_. zero_then_five) (Some 0)) =
     Inr (Result
       \<lparr>current_price = Fin 5, daily_change = Fin 5, daily_change_pct = PInf,
        volume = Fin 20, high_52w = Fin 5, low_52w = Fin 0, avg_volume = Fin 15,
        volatility = NaN, ma_20 = None, ma_50 = None\<rparr> 0)" for pd :: "stamp pandas"
    using calculate_metrics_cols [of "\<lambda>_. zero_then_five" 0
        "[Fin 1, Fin 2]" "[Fin 1, Fin 5]" "[Fin 0, Fin 2]" "[Fin 0, Fin 5]" "[Fin 10, Fin 20]" pd]
    by (simp add: zero_then_five_def fsub_def inf_of_sign_def series_max_def series_min_def
        series_mean_def series_std_def dropna_def fmax2_def fmin2_def fsum_def
        rolling_mean_def pct_change_zero_then_five optional_def upt_rec)
  from this [of pandas_3] this [of pandas_2] show ?thesis by simp
qed

text \<open>
  C8, as the code has it: on a missing series, an empty series and every series with the
  five price columns \<^verbatim>\<open>calculate_metrics\<close> raises nothing: it returns the empty
  dictionary for the first two and the metrics otherwise. When the previous closing price
  is zero, the percent change is not-a-number if the latest price is zero too, and an
  infinity if the latest price is another finite number.
\<close>

theorem metrics_never_raise:
  assumes ts: "price_series (h r)" and g: "get_column (h r) ''Close'' = Inr cl"
  shows "snd (calculate_metrics pd h None) = Inr EmptyDict \<and>
    (index (h r) = [] \<longrightarrow> snd (calculate_metrics pd h (Some r)) = Inr EmptyDict) \<and>
    (index (h r) \<noteq> [] \<longrightarrow>
      (\<exists>m. snd (calculate_metrics pd h (Some r)) = Inr (Result m r) \<and>
        (length cl = 1 \<and> cl ! 0 = Fin 0 \<longrightarrow> daily_change_pct m = NaN) \<and>
        (\<forall>x. 2 \<le> length cl \<and> cl ! (length cl - 2) = Fin 0 \<and> cl ! (length cl - 1) = Fin x \<longrightarrow>
          (x = 0 \<longrightarrow> daily_change_pct m = NaN) \<and>
          (x \<noteq> 0 \<longrightarrow> daily_change_pct m = PInf \<or> daily_change_pct m = NInf))))"
proof (intro conjI impI)
  show "snd (calculate_metrics pd h None) = Inr EmptyDict"
    by (simp add: calculate_metrics_def)
next
  assume "index (h r) = []"
  then show "snd (calculate_metrics pd h (Some r)) = Inr EmptyDict"
    by (simp add: calculate_metrics_empty)
next
  assume ne: "index (h r) \<noteq> []"
  from ts obtain op hi lo cl' vo where
    cs: "columns (h r) =
       [(''Open'', op), (''High'', hi), (''Low'', lo), (''Close'', cl'), (''Volume'', vo)]"
    and len: "length cl' = length (index (h r))" "length vo = length (index (h r))"
    by (rule price_series_cols)
  from g cs have eq: "cl' = cl" by (simp add: get_column_def)
  obtain m where res: "snd (calculate_metrics pd h (Some r)) = Inr (Result m r)"
    and pct: "daily_change_pct m =
           fmul (fdiv (fsub (cl ! (length cl - 1))
                         (cl ! (length cl - (if 1 < length cl then 2 else 1))))
                   (cl ! (length cl - (if 1 < length cl then 2 else 1)))) (Fin 100)"
    using calculate_metrics_cols [of h r, OF cs ne len, of pd] eq by simp
  have one: "length cl = 1 \<and> cl ! 0 = Fin 0 \<longrightarrow> daily_change_pct m = NaN"
  proof
    assume "length cl = 1 \<and> cl ! 0 = Fin 0"
    with pct have "daily_change_pct m = fmul (fdiv (fsub (Fin 0) (Fin 0)) (Fin 0)) (Fin 100)"
      by simp
    then show "daily_change_pct m = NaN"
      by (simp add: pct_zero_previous)
  qed
  have two: "\<forall>x. 2 \<le> length cl \<and> cl ! (length cl - 2) = Fin 0 \<and> cl ! (length cl - 1) = Fin x \<longrightarrow>
          (x = 0 \<longrightarrow> daily_change_pct m = NaN) \<and>
          (x \<noteq> 0 \<longrightarrow> daily_change_pct m = PInf \<or> daily_change_pct m = NInf)"
  proof (intro allI impI)
    fix x
    assume a: "2 \<le> length cl \<and> cl ! (length cl - 2) = Fin 0 \<and> cl ! (length cl - 1) = Fin x"
    then have "1 < length cl" by simp
    with a pct have "daily_change_pct m = fmul (fdiv (fsub (Fin x) (Fin 0)) (Fin 0)) (Fin 100)"
      by simp
    then show "(x = 0 \<longrightarrow> daily_change_pct m = NaN) \<and>
          (x \<noteq> 0 \<longrightarrow> daily_change_pct m = PInf \<or> daily_change_pct m = NInf)"
      by (simp add: pct_zero_previous)
  qed
  from res one two
  show "\<exists>m. snd (calculate_metrics pd h (Some r)) = Inr (Result m r) \<and>
        (length cl = 1 \<and> cl ! 0 = Fin 0 \<longrightarrow> daily_change_pct m = NaN) \<and>
        (\<forall>x. 2 \<le> length cl \<and> cl ! (length cl - 2) = Fin 0 \<and> cl ! (length cl - 1) = Fin x \<longrightarrow>
          (x = 0 \<longrightarrow> daily_change_pct m = NaN) \<and>
          (x \<noteq> 0 \<longrightarrow> daily_change_pct m = PInf \<or> daily_change_pct m = NInf))"
    by blast
qed

theorem metrics_never_raise_witness:
  "price_series zero_then_five \<and> get_column zero_then_five ''Close'' = Inr [Fin 0, Fin 5] \<and>
   snd (calculate_metrics pandas_3 (\<lambda>_. zero_then_five) None) = Inr EmptyDict \<and>
   (\<exists>m. snd (calculate_metrics pandas_3 (\<lambda>_. zero_then_five) (Some 0)) = Inr (Result m 0) \<and>
      (daily_change_pct m = PInf \<or> daily_change_pct m = NInf))"
proof -
  have g: "get_column zero_then_five ''Close'' = Inr [Fin 0, Fin 5]"
    by (simp add: get_column_def zero_then_five_def)
  have i: "index zero_then_five \<noteq> []"
    by (simp add: zero_then_five_def)
  show ?thesis
    using metrics_never_raise [of "\<lambda>_. zero_then_five" 0, OF price_series_zero_then_five g,
        of pandas_3] i
    by (simp add: price_series_zero_then_five g)
qed

section \<open>Properties of fetch\_stock\_data\<close>

lemma foldl_update_keys:
  "fst ` set (foldl (\<lambda>d (k, v). AList.update k v d) d0 ms) = fst ` set d0 \<union> fst ` set ms"
proof (induction ms arbitrary: d0)
  case Nil
  show ?case by simp
next
  case (Cons m ms)
  have "fst ` set (AList.update (fst m) (snd m) d0) = {fst m} \<union> fst ` set d0"
    by (rule dom_update)
  with Cons [of "AList.update (fst m) (snd m) d0"] show ?case
    by (simp add: case_prod_beta Un_assoc [symmetric] Un_commute)
qed

lemma foldl_update_distinct:
  "distinct (map fst d0) \<Longrightarrow> distinct (map fst (foldl (\<lambda>d (k, v). AList.update k v d) d0 ms))"
  by (induction ms arbitrary: d0) (simp_all add: distinct_update case_prod_beta)

lemma keys_py_dict: "fst ` set (py_dict ms) = fst ` set ms"
  by (simp add: py_dict_def foldl_update_keys)

lemma distinct_py_dict: "distinct (map fst (py_dict ms))"
  by (simp add: py_dict_def foldl_update_distinct)

lemma handle_transport_failure:
  "handle_response pd symbol TransportFailure =
     ([ExceptionCaught symbol ConnectionError], None)"
  by (simp add: handle_response_def)

lemma handle_not_json:
  "handle_response pd symbol NotJson =
     ([ExceptionCaught symbol JSONDecodeError], None)"
  by (simp add: handle_response_def)

lemma handle_error_message:
  assumes "''Error Message'' \<in> fst ` set ms"
  shows "\<exists>msg. handle_response pd symbol (Body ms) =
     ([ProviderError symbol msg], None)"
proof -
  from assms have k: "''Error Message'' \<in> fst ` set (py_dict ms)"
    by (simp add: keys_py_dict)
  then obtain msg where "map_of (py_dict ms) ''Error Message'' = Some msg"
    by (metis domD dom_map_of_conv_image_fst)
  with k show ?thesis
    by (simp add: handle_response_def)
qed

lemma handle_note:
  assumes "''Error Message'' \<notin> fst ` set ms" and "''Note'' \<in> fst ` set ms"
  shows "handle_response pd symbol (Body ms) = ([RateLimitWarning], None)"
  using assms keys_py_dict [of ms] by (simp add: handle_response_def)

lemma handle_no_data:
  assumes "''Error Message'' \<notin> fst ` set ms" and "''Note'' \<notin> fst ` set ms"
    and "map_of (py_dict ms) ''Time Series (Daily)'' = None \<or>
         (\<exists>v. map_of (py_dict ms) ''Time Series (Daily)'' = Some v \<and> \<not> truthy v)"
  shows "handle_response pd symbol (Body ms) = ([NoDataFound symbol], None)"
  using assms keys_py_dict [of ms] by (auto simp add: handle_response_def)

lemma handle_build_error:
  assumes "''Error Message'' \<notin> fst ` set ms" and "''Note'' \<notin> fst ` set ms"
    and "map_of (py_dict ms) ''Time Series (Daily)'' = Some v" and "truthy v"
    and "build_frame pd v = Inl e"
  shows "handle_response pd symbol (Body ms) =
     ([ExceptionCaught symbol e], None)"
  using assms keys_py_dict [of ms] by (auto simp add: handle_response_def)

lemma fetch_stock_data_eq:
  "fetch_stock_data pd API_KEY net sent symbol =
     (handle_response pd symbol (net (length sent) (params API_KEY symbol)),
      sent @ [params API_KEY symbol])"
  by (simp add: fetch_stock_data_def requests_get_def)

subsection \<open>C3: what a failed fetch returns\<close>

text \<open>
  Claim C3 says that each kind of failure gives the caller a value of its own. The body
  with an error message, the body with a note, the body with an empty series and the
  transport failure all return the same value, \<^verbatim>\<open>None\<close>, with either library.
\<close>

theorem failures_share_one_value_counterexample:
  "snd (fst (fetch_stock_data pandas_3 (Some ''demo'') (answering (Body error_body)) [] ''IBM'')) = None \<and>
   snd (fst (fetch_stock_data pandas_3 (Some ''demo'') (answering (Body note_body)) [] ''IBM'')) = None \<and>
   snd (fst (fetch_stock_data pandas_3 (Some ''demo'') (answering (Body empty_body)) [] ''IBM'')) = None \<and>
   snd (fst (fetch_stock_data pandas_3 (Some ''demo'') (answering TransportFailure) [] ''IBM'')) = None \<and>
   snd (fst (fetch_stock_data pandas_2 (Some ''demo'') (answering (Body error_body)) [] ''IBM'')) = None \<and>
   snd (fst (fetch_stock_data pandas_2 (Some ''demo'') (answering (Body note_body)) [] ''IBM'')) = None \<and>
   snd (fst (fetch_stock_data pandas_2 (Some ''demo'') (answering (Body empty_body)) [] ''IBM'')) = None \<and>
   snd (fst (fetch_stock_data pandas_2 (Some ''demo'') (answering TransportFailure) [] ''IBM'')) = None"
  by (simp add: fetch_stock_data_eq answering_def handle_response_def error_body_def note_body_def
      empty_body_def py_dict_def)

text \<open>
  C3, as the code has it: whatever the failure (a transport failure, a body with the key
  \<^verbatim>\<open>Error Message\<close>, one with the key \<^verbatim>\<open>Note\<close> and no error message, one whose time
  series is missing, null or empty), \<^verbatim>\<open>fetch_stock_data\<close> returns \<^verbatim>\<open>None\<close>; the kind
  of failure shows only in the notice the function displays.
\<close>

theorem failures_return_None:
  assumes "net (length sent) (params API_KEY symbol) = resp"
  shows "(resp = TransportFailure \<longrightarrow>
       fst (fetch_stock_data pd API_KEY net sent symbol) =
         ([ExceptionCaught symbol ConnectionError], None)) \<and>
    (\<forall>ms. resp = Body ms \<and> ''Error Message'' \<in> fst ` set ms \<longrightarrow>
       (\<exists>msg. fst (fetch_stock_data pd API_KEY net sent symbol) =
         ([ProviderError symbol msg], None))) \<and>
    (\<forall>ms. resp = Body ms \<and> ''Error Message'' \<notin> fst ` set ms \<and> ''Note'' \<in> fst ` set ms \<longrightarrow>
       fst (fetch_stock_data pd API_KEY net sent symbol) =
         ([RateLimitWarning], None)) \<and>
    (\<forall>ms. resp = Body ms \<and> ''Error Message'' \<notin> fst ` set ms \<and> ''Note'' \<notin> fst ` set ms \<and>
        (map_of (py_dict ms) ''Time Series (Daily)'' = None \<or>
         map_of (py_dict ms) ''Time Series (Daily)'' = Some (JObj []) \<or>
         map_of (py_dict ms) ''Time Series (Daily)'' = Some JNull) \<longrightarrow>
       fst (fetch_stock_data pd API_KEY net sent symbol) =
         ([NoDataFound symbol], None))"
proof (intro conjI allI impI)
  assume "resp = TransportFailure"
  with assms show "fst (fetch_stock_data pd API_KEY net sent symbol) =
         ([ExceptionCaught symbol ConnectionError], None)"
    by (simp add: fetch_stock_data_eq handle_transport_failure)
next
  fix ms assume "resp = Body ms \<and> ''Error Message'' \<in> fst ` set ms"
  with assms handle_error_message [of ms pd symbol]
  show "\<exists>msg. fst (fetch_stock_data pd API_KEY net sent symbol) =
         ([ProviderError symbol msg], None)"
    by (simp add: fetch_stock_data_eq)
next
  fix ms assume "resp = Body ms \<and> ''Error Message'' \<notin> fst ` set ms \<and> ''Note'' \<in> fst ` set ms"
  with assms show "fst (fetch_stock_data pd API_KEY net sent symbol) =
         ([RateLimitWarning], None)"
    by (simp add: fetch_stock_data_eq handle_note)
next
  fix ms assume a: "resp = Body ms \<and> ''Error Message'' \<notin> fst ` set ms \<and> ''Note'' \<notin> fst ` set ms \<and>
        (map_of (py_dict ms) ''Time Series (Daily)'' = None \<or>
         map_of (py_dict ms) ''Time Series (Daily)'' = Some (JObj []) \<or>
         map_of (py_dict ms) ''Time Series (Daily)'' = Some JNull)"
  then have "map_of (py_dict ms) ''Time Series (Daily)'' = None \<or>
         (\<exists>v. map_of (py_dict ms) ''Time Series (Daily)'' = Some v \<and> \<not> truthy v)"
    by auto
  with a assms show "fst (fetch_stock_data pd API_KEY net sent symbol) =
         ([NoDataFound symbol], None)"
    by (simp add: fetch_stock_data_eq handle_no_data)
qed

theorem failures_return_None_witness:
  "fst (fetch_stock_data pandas_3 (Some ''demo'') (answering TransportFailure) [] ''IBM'') =
         ([ExceptionCaught ''IBM'' ConnectionError], None) \<and>
   (\<exists>msg. fst (fetch_stock_data pandas_3 (Some ''demo'') (answering (Body error_body)) [] ''IBM'') =
         ([ProviderError ''IBM'' msg], None)) \<and>
   fst (fetch_stock_data pandas_3 (Some ''demo'') (answering (Body note_body)) [] ''IBM'') =
         ([RateLimitWarning], None) \<and>
   fst (fetch_stock_data pandas_3 (Some ''demo'') (answering (Body empty_body)) [] ''IBM'') =
         ([NoDataFound ''IBM''], None)"
  using failures_return_None [of "answering TransportFailure" "[]" "Some ''demo''" "''IBM''" TransportFailure pandas_3]
    failures_return_None [of "answering (Body error_body)" "[]" "Some ''demo''" "''IBM''" "Body error_body" pandas_3]
    failures_return_None [of "answering (Body note_body)" "[]" "Some ''demo''" "''IBM''" "Body note_body" pandas_3]
    failures_return_None [of "answering (Body empty_body)" "[]" "Some ''demo''" "''IBM''" "Body empty_body" pandas_3]
  by (simp add: answering_def error_body_def note_body_def empty_body_def py_dict_def)

section \<open>Properties of the cache\<close>

lemma cached_hit:
  assumes "cache s symbol = Some (stored, v)" and "now < stored + ttl"
  shows "cached_fetch_stock_data pd API_KEY net now s symbol = (v, s)"
  using assms by (simp add: cached_fetch_stock_data_def)

lemma cached_miss:
  assumes "cache s symbol = None \<or>
    (\<exists>stored v. cache s symbol = Some (stored, v) \<and> \<not> now < stored + ttl)"
  shows "cached_fetch_stock_data pd API_KEY net now s symbol =
    (snd (handle_response pd symbol
        (net (length (requests_sent s)) (params API_KEY symbol))),
     s\<lparr>cache := (cache s)(symbol \<mapsto> (now,
          snd (handle_response pd symbol
            (net (length (requests_sent s)) (params API_KEY symbol))))),
       requests_sent := requests_sent s @ [params API_KEY symbol]\<rparr>)"
  using assms
  by (auto simp add: cached_fetch_stock_data_def fetch_stock_data_eq case_prod_beta)

lemma is_failure_iff_None:
  "is_failure pd resp \<longleftrightarrow>
     snd (handle_response pd symbol resp) = None"
proof (cases resp)
  case (Body ms)
  show ?thesis
    by (auto simp add: Body is_failure_def handle_response_def keys_py_dict Let_def
        split: option.splits sum.splits)
qed (simp_all add: is_failure_def handle_response_def)

lemma iso_dates:
  "iso_date ''2024-01-02'' = Some (At 20240102)"
  "iso_date ''2024-01-03'' = Some (At 20240103)"
  "iso_date ''2024-01-04'' = Some (At 20240104)"
  "iso_date ''NaT'' = Some NaT"
  "iso_date ''nan'' = Some NaT"
  by (simp_all add: iso_date_def number_def digit_def)

lemma decimals:
  "decimal ''10'' = Some (Fin 10)" "decimal ''11'' = Some (Fin 11)"
  "decimal ''12'' = Some (Fin 12)" "decimal ''9.5'' = Some (Fin (19 / 2))"
  "decimal ''10.5'' = Some (Fin (21 / 2))" "decimal ''11.5'' = Some (Fin (23 / 2))"
  "decimal ''11.25'' = Some (Fin (45 / 4))" "decimal ''100'' = Some (Fin 100)"
  "decimal ''200'' = Some (Fin 200)" "decimal ''300'' = Some (Fin 300)"
  "decimal ''7'' = Some (Fin 7)" "decimal ''70'' = Some (Fin 70)"
  by (simp_all add: decimal_def number_def digit_def)

lemma readers_pandas_2: "to_datetime pandas_2 = iso_date" "to_numeric pandas_2 = decimal"
  by (simp_all add: pandas_2_def)

lemma readers_pandas_3: "to_datetime pandas_3 = iso_date" "to_numeric pandas_3 = decimal"
  by (simp_all add: pandas_3_def)

text \<open>The frame of the example body, with any library that has the example readers.\<close>

lemma daily_series_frame:
  assumes "to_datetime pd = iso_date" and "to_numeric pd = decimal"
  shows "build_frame pd
     (JObj [(''2024-01-04'', bar ''11.5'' ''12'' ''11'' ''11.25'' ''300''),
            (''2024-01-03'', bar ''10.5'' ''12'' ''10'' ''11.5'' ''200''),
            (''2024-01-02'', bar ''10'' ''11'' ''9.5'' ''10.5'' ''100'')]) = Inr daily_frame"
  by (cases "keeps_empty_records pd")
    (simp_all add: assms build_frame_def from_dict_index_def records_def field_names_def
      row_keys_def cell_def py_dict_def bar_def first_seen_def Let_def
      set_columns_def series_columns_def set_index_datetime_def iso_dates sort_index_def
      columns_to_numeric_def numeric_column_def decimals daily_frame_def upt_rec)

lemma daily_body_frame:
  assumes "to_datetime pd = iso_date" and "to_numeric pd = decimal"
  shows "handle_response pd ''IBM'' (Body daily_body) = ([], Some daily_frame)"
  by (simp add: handle_response_def daily_body_def py_dict_def daily_series_frame [OF assms])

subsection \<open>C5: two calls within the ttl\<close>

text \<open>
  C5: when a call finds no valid entry for the symbol and a second call for the symbol
  comes less than 300 seconds after it, the second call returns the value of the first,
  and the two calls together send one request.
\<close>

theorem two_calls_one_request:
  assumes miss: "cache s symbol = None \<or>
      (\<exists>stored v. cache s symbol = Some (stored, v) \<and> \<not> t0 < stored + 300)"
    and first: "cached_fetch_stock_data pd API_KEY net t0 s symbol = (v1, s1)"
    and second: "cached_fetch_stock_data pd API_KEY net t1 s1 symbol = (v2, s2)"
    and within: "t1 < t0 + 300"
  shows "v2 = v1 \<and> requests_sent s2 = requests_sent s @ [params API_KEY symbol]"
proof -
  from miss have m: "cache s symbol = None \<or>
      (\<exists>stored v. cache s symbol = Some (stored, v) \<and> \<not> t0 < stored + ttl)"
    by (simp add: ttl_def)
  from first cached_miss [OF m, of pd API_KEY net]
  have e: "cache s1 symbol = Some (t0, v1)"
    and r: "requests_sent s1 = requests_sent s @ [params API_KEY symbol]"
    by auto
  from within have "t1 < t0 + ttl" by (simp add: ttl_def)
  from cached_hit [OF e this, of pd API_KEY net] second
  have "v2 = v1" "s2 = s1" by simp_all
  with r show ?thesis by simp
qed

theorem two_calls_one_request_witness:
  "cache cold ''IBM'' = None \<and>
   cached_fetch_stock_data pandas_3 (Some ''demo'') failing_after_first 0 cold ''IBM'' =
     (Some daily_frame, stale) \<and>
   cached_fetch_stock_data pandas_3 (Some ''demo'') failing_after_first 299 stale ''IBM'' =
     (Some daily_frame, stale) \<and>
   requests_sent stale = requests_sent cold @ [params (Some ''demo'') ''IBM'']"
proof -
  have c: "cache cold ''IBM'' = None" by (simp add: cold_def)
  have a: "cached_fetch_stock_data pandas_3 (Some ''demo'') failing_after_first 0 cold ''IBM'' =
     (Some daily_frame, stale)"
    using cached_miss [of cold "''IBM''" 0 pandas_3 "Some ''demo''" failing_after_first] c
    by (simp add: cold_def stale_def failing_after_first_def daily_body_frame readers_pandas_3)
  have b: "cached_fetch_stock_data pandas_3 (Some ''demo'') failing_after_first 299 stale ''IBM'' =
     (Some daily_frame, stale)"
    by (rule cached_hit [of stale "''IBM''" 0]) (simp_all add: stale_def ttl_def)
  from two_calls_one_request [OF _ a b] c a b show ?thesis
    by simp
qed

subsection \<open>C10: a failure is cached\<close>

text \<open>
  C10: when a call finds no valid entry and the fetch fails, in any of the ways a fetch
  can fail, the call returns \<^verbatim>\<open>None\<close> after one request and stores \<^verbatim>\<open>None\<close> with
  the time of the call. While that entry stands, a call for the symbol less than 300
  seconds after it returns \<^verbatim>\<open>None\<close> and changes nothing, so it sends no request; and
  a call for any symbol in that time leaves the entry standing.
\<close>

theorem failure_is_cached:
  assumes miss: "cache s symbol = None \<or>
      (\<exists>stored v. cache s symbol = Some (stored, v) \<and> \<not> t0 < stored + 300)"
    and fail: "is_failure pd
      (net (length (requests_sent s)) (params API_KEY symbol))"
  shows "cached_fetch_stock_data pd API_KEY net t0 s symbol =
      (None, s\<lparr>cache := (cache s)(symbol \<mapsto> (t0, None)),
               requests_sent := requests_sent s @ [params API_KEY symbol]\<rparr>) \<and>
    (\<forall>s' t1. cache s' symbol = Some (t0, None) \<and> t1 < t0 + 300 \<longrightarrow>
       cached_fetch_stock_data pd API_KEY net t1 s' symbol = (None, s')) \<and>
    (\<forall>s' t1 other. cache s' symbol = Some (t0, None) \<and> t1 < t0 + 300 \<longrightarrow>
       cache (snd (cached_fetch_stock_data pd API_KEY net t1 s' other)) symbol =
         Some (t0, None))"
proof (intro conjI allI impI)
  from miss have m: "cache s symbol = None \<or>
      (\<exists>stored v. cache s symbol = Some (stored, v) \<and> \<not> t0 < stored + ttl)"
    by (simp add: ttl_def)
  from fail have "snd (handle_response pd symbol
      (net (length (requests_sent s)) (params API_KEY symbol))) = None"
    by (simp add: is_failure_iff_None [symmetric])
  with cached_miss [OF m, of pd API_KEY net]
  show "cached_fetch_stock_data pd API_KEY net t0 s symbol =
      (None, s\<lparr>cache := (cache s)(symbol \<mapsto> (t0, None)),
               requests_sent := requests_sent s @ [params API_KEY symbol]\<rparr>)"
    by simp
next
  fix s' :: "'a session" and t1
  assume a: "cache s' symbol = Some (t0, None) \<and> t1 < t0 + 300"
  then have "t1 < t0 + ttl" by (simp add: ttl_def)
  with a show "cached_fetch_stock_data pd API_KEY net t1 s' symbol = (None, s')"
    by (simp add: cached_hit)
next
  fix s' :: "'a session" and t1 other
  assume a: "cache s' symbol = Some (t0, None) \<and> t1 < t0 + 300"
  then have w: "t1 < t0 + ttl" by (simp add: ttl_def)
  show "cache (snd (cached_fetch_stock_data pd API_KEY net t1 s' other)) symbol =
         Some (t0, None)"
  proof (cases "other = symbol")
    case True
    with a w show ?thesis by (simp add: cached_hit)
  next
    case False
    with a show ?thesis
      by (simp add: cached_fetch_stock_data_def fetch_stock_data_eq case_prod_beta Let_def
          split: option.splits)
  qed
qed

theorem failure_is_cached_witness:
  "cache cold ''IBM'' = None \<and>
   is_failure pandas_3 (answering (Body note_body) 0 (params (Some ''demo'') ''IBM'')) \<and>
   cached_fetch_stock_data pandas_3 (Some ''demo'') (answering (Body note_body)) 0 cold ''IBM'' =
     (None, \<lparr>cache = [''IBM'' \<mapsto> (0, None)], requests_sent = [params (Some ''demo'') ''IBM'']\<rparr>) \<and>
   cached_fetch_stock_data pandas_3 (Some ''demo'') (answering (Body note_body)) 299
       \<lparr>cache = [''IBM'' \<mapsto> (0, None)], requests_sent = [params (Some ''demo'') ''IBM'']\<rparr> ''IBM'' =
     (None, \<lparr>cache = [''IBM'' \<mapsto> (0, None)], requests_sent = [params (Some ''demo'') ''IBM'']\<rparr>)"
proof -
  have c: "cache cold ''IBM'' = None" by (simp add: cold_def)
  have f: "is_failure pandas_3 (answering (Body note_body) 0 (params (Some ''demo'') ''IBM''))"
    by (simp add: is_failure_def answering_def note_body_def)
  from failure_is_cached [of cold "''IBM''" 0 pandas_3 "answering (Body note_body)" "Some ''demo''"] c f
  show ?thesis
    by (simp add: cold_def)
qed

subsection \<open>C2: an expired entry and a failed re-fetch\<close>

text \<open>
  Claim C2 says that the snapshot of an expired entry stays in the cache when the re-fetch
  fails. The entry for IBM, stored at time 0 with a frame, holds \<^verbatim>\<open>None\<close> after the
  call at time 400 whose request meets a transport failure, with either library.
\<close>

theorem stale_entry_replaced_counterexample:
  "cache stale ''IBM'' = Some (0, Some daily_frame) \<and>
   cached_fetch_stock_data pandas_3 (Some ''demo'') failing_after_first 400 stale ''IBM'' =
     (None, \<lparr>cache = [''IBM'' \<mapsto> (400, None)],
             requests_sent = [params (Some ''demo'') ''IBM'', params (Some ''demo'') ''IBM'']\<rparr>) \<and>
   cached_fetch_stock_data pandas_2 (Some ''demo'') failing_after_first 400 stale ''IBM'' =
     (None, \<lparr>cache = [''IBM'' \<mapsto> (400, None)],
             requests_sent = [params (Some ''demo'') ''IBM'', params (Some ''demo'') ''IBM'']\<rparr>)"
proof -
  have e: "cache stale ''IBM'' = Some (0, Some daily_frame)" by (simp add: stale_def)
  have "cache stale ''IBM'' = None \<or>
    (\<exists>stored v. cache stale ''IBM'' = Some (stored, v) \<and> \<not> 400 < stored + ttl)"
    by (simp add: stale_def ttl_def)
  from cached_miss [OF this, of pandas_3 "Some ''demo''" failing_after_first]
    cached_miss [OF this, of pandas_2 "Some ''demo''" failing_after_first] e
  show ?thesis
    by (simp add: stale_def failing_after_first_def handle_response_def)
qed

text \<open>
  C2, as the code has it: when the entry of a symbol has expired and the re-fetch fails,
  the call returns \<^verbatim>\<open>None\<close> and the entry is replaced by \<^verbatim>\<open>None\<close> with the time of
  the call; the snapshot it held is no longer in the cache.
\<close>

theorem expired_refetch_failure_replaces_entry:
  assumes entry: "cache s symbol = Some (stored, Some snapshot)"
    and expired: "\<not> now < stored + 300"
    and fail: "is_failure pd
      (net (length (requests_sent s)) (params API_KEY symbol))"
  shows "cached_fetch_stock_data pd API_KEY net now s symbol =
      (None, s\<lparr>cache := (cache s)(symbol \<mapsto> (now, None)),
               requests_sent := requests_sent s @ [params API_KEY symbol]\<rparr>)"
proof -
  from entry expired have m: "cache s symbol = None \<or>
      (\<exists>stored v. cache s symbol = Some (stored, v) \<and> \<not> now < stored + ttl)"
    by (simp add: ttl_def)
  from fail have "snd (handle_response pd symbol
      (net (length (requests_sent s)) (params API_KEY symbol))) = None"
    by (simp add: is_failure_iff_None [symmetric])
  with cached_miss [OF m, of pd API_KEY net]
  show ?thesis by simp
qed

theorem expired_refetch_failure_replaces_entry_witness:
  "cache stale ''IBM'' = Some (0, Some daily_frame) \<and> \<not> (300::real) < 0 + 300 \<and>
   is_failure pandas_3 (failing_after_first (length (requests_sent stale))
      (params (Some ''demo'') ''IBM'')) \<and>
   cached_fetch_stock_data pandas_3 (Some ''demo'') failing_after_first 300 stale ''IBM'' =
     (None, \<lparr>cache = [''IBM'' \<mapsto> (300, None)],
             requests_sent = [params (Some ''demo'') ''IBM'', params (Some ''demo'') ''IBM'']\<rparr>)"
proof -
  have e: "cache stale ''IBM'' = Some (0, Some daily_frame)" by (simp add: stale_def)
  have x: "\<not> (300::real) < 0 + 300" by simp
  have f: "is_failure pandas_3 (failing_after_first (length (requests_sent stale))
      (params (Some ''demo'') ''IBM''))"
    by (simp add: is_failure_def failing_after_first_def stale_def)
  from expired_refetch_failure_replaces_entry [of stale "''IBM''" 0 daily_frame 300 pandas_3
      failing_after_first "Some ''demo''"] e f
  show ?thesis
    by (simp add: stale_def)
qed

section \<open>The order of the fetched series\<close>

lemma those_Some: "those xs = Some ys \<Longrightarrow> xs = map Some ys"
  by (induction xs arbitrary: ys) (auto split: option.splits)

lemma distinct_first_seen: "distinct (first_seen xs)"
  by (simp add: first_seen_def)

lemma set_first_seen: "set (first_seen xs) = set xs"
  by (simp add: first_seen_def)

lemma keys_records: "map fst (records ms) = map fst (py_dict ms)"
  by (simp add: records_def case_prod_beta comp_def)

lemma distinct_records: "distinct (map fst (records ms))"
  by (simp add: keys_records distinct_py_dict)

lemma set_keys_records: "fst ` set (records ms) = fst ` set ms"
  using keys_records [of ms] keys_py_dict [of ms] by (metis list.set_map)

lemma distinct_row_keys:
  "distinct (map fst recs) \<Longrightarrow> distinct (row_keys keeps_empty recs)"
  by (simp add: row_keys_def distinct_first_seen)

lemma set_row_keys: "set (row_keys keeps_empty recs) \<subseteq> fst ` set recs"
  by (auto simp add: row_keys_def set_first_seen)

lemma row_keys_has:
  assumes "(k, s) \<in> set recs" and "s \<noteq> [] \<or> keeps_empty"
  shows "k \<in> set (row_keys keeps_empty recs)"
proof (cases keeps_empty)
  case True
  with assms(1) show ?thesis by (force simp add: row_keys_def)
next
  case False
  with assms(2) obtain c where c: "c \<in> set (map fst s)" by (cases s) auto
  with assms(1) have "c \<in> set (field_names recs)"
    by (force simp add: field_names_def set_first_seen)
  moreover from assms(1) c
  have "k \<in> set (map fst (filter (\<lambda>(k, s). c \<in> set (map fst s)) recs))"
    by force
  ultimately show ?thesis
    using False by (auto simp add: row_keys_def set_first_seen)
qed

lemma from_dict_index_frame:
  assumes "from_dict_index keeps_empty (JObj ms) = Inr df0" and "length (columns df0) = 5"
  shows "df0 = \<lparr>index = row_keys keeps_empty (records ms),
               columns = map (\<lambda>c. (c, map (\<lambda>k. cell (records ms) k c)
                                      (row_keys keeps_empty (records ms))))
                           (field_names (records ms))\<rparr>"
proof (cases "py_dict ms")
  case Nil
  with assms show ?thesis by (auto simp add: from_dict_index_def)
next
  case (Cons m rest)
  obtain k0 v0 where m: "m = (k0, v0)" by (cases m)
  from assms Cons m show ?thesis
    by (auto simp add: from_dict_index_def Let_def split: if_splits)
qed

lemma from_dict_index_keys:
  assumes "from_dict_index keeps_empty (JObj ms) = Inr df"
  shows "distinct (index df) \<and> set (index df) \<subseteq> fst ` set ms"
proof (cases "py_dict ms")
  case Nil
  with assms show ?thesis by (auto simp add: from_dict_index_def)
next
  case (Cons m rest)
  obtain k0 v0 where m: "m = (k0, v0)" by (cases m)
  have d: "distinct (map fst (py_dict ms))" by (rule distinct_py_dict)
  have k: "fst ` set (py_dict ms) = fst ` set ms" by (rule keys_py_dict)
  show ?thesis
  proof (cases "is_obj v0")
    case False
    with assms Cons m have "index df = map fst (py_dict ms)"
      by (auto simp add: from_dict_index_def)
    with d k show ?thesis by simp
  next
    case True
    with assms Cons m have i: "index df = row_keys keeps_empty (records ms)"
      by (auto simp add: from_dict_index_def Let_def split: if_splits)
    from distinct_row_keys [OF distinct_records, of keeps_empty ms]
      set_row_keys [of keeps_empty "records ms"] set_keys_records [of ms] i
    show ?thesis by simp
  qed
qed


lemma sort_index_index:
  "index (sort_index df) =
     map (\<lambda>i. index df ! i) (sort_key (\<lambda>i. index df ! i) [0..<length (index df)])"
  by (simp add: sort_index_def Let_def)

lemma sort_index_column:
  "j < length (columns df) \<Longrightarrow>
     columns (sort_index df) ! j =
       (fst (columns df ! j),
        map (\<lambda>i. snd (columns df ! j) ! i)
          (sort_key (\<lambda>i. index df ! i) [0..<length (index df)]))"
  by (simp add: sort_index_def Let_def case_prod_beta)

lemma length_columns_sort_index: "length (columns (sort_index df)) = length (columns df)"
  by (simp add: sort_index_def Let_def)

lemma sorted_sort_index: "sorted (index (sort_index df))"
  unfolding sort_index_index by (rule sorted_sort_key)

lemma distinct_sort_index:
  assumes "distinct (index df)"
  shows "distinct (index (sort_index df))"
proof -
  have "inj_on (\<lambda>i. index df ! i) (set [0..<length (index df)])"
    using assms by (auto simp: inj_on_def nth_eq_iff_index_eq)
  then show ?thesis
    unfolding sort_index_index by (simp add: distinct_map)
qed

lemma collect_Inr:
  "collect rs = Inr xs \<Longrightarrow> rs = map Inr xs"
proof (induction rs arbitrary: xs)
  case Nil
  then show ?case by simp
next
  case (Cons r rs)
  then show ?case
    by (cases r) (auto split: sum.splits)
qed

lemma columns_to_numeric_index:
  "columns_to_numeric read df = Inr df' \<Longrightarrow> index df' = index df"
  by (auto simp add: columns_to_numeric_def split: sum.splits)

lemma columns_to_numeric_cell:
  assumes c: "columns_to_numeric read df = Inr df'"
    and j: "j < length (columns df)" and i: "i < length (snd (columns df ! j))"
  shows "length (columns df') = length (columns df) \<and>
    numeric_cell read (snd (columns df ! j) ! i) = Inr (snd (columns df' ! j) ! i)"
proof -
  from c obtain cs where cc: "collect (map (numeric_column read) (columns df)) = Inr cs"
    and d: "columns df' = cs"
    by (auto simp add: columns_to_numeric_def split: sum.splits)
  from collect_Inr [OF cc] have m: "map (numeric_column read) (columns df) = map Inr cs" .
  then have len: "length cs = length (columns df)" by (metis length_map)
  from m j len have "numeric_column read (columns df ! j) = Inr (cs ! j)"
    by (metis nth_map)
  then obtain xs where x: "collect (map (numeric_cell read) (snd (columns df ! j))) = Inr xs"
    and cj: "snd (cs ! j) = xs"
    by (auto simp add: numeric_column_def split: sum.splits) (metis snd_conv)
  from collect_Inr [OF x]
  have mm: "map (numeric_cell read) (snd (columns df ! j)) = map Inr xs" .
  then have "length xs = length (snd (columns df ! j))" by (metis length_map)
  with mm i have "numeric_cell read (snd (columns df ! j) ! i) = Inr (xs ! i)"
    by (metis nth_map)
  with len cj d show ?thesis by simp
qed

text \<open>What \<^verbatim>\<open>build_frame\<close> returns, row by row.\<close>

lemma build_frame_rows:
  assumes b: "build_frame pd (JObj rows) = Inr df"
  shows "map fst (columns df) = series_columns"
    and "sorted (index df)"
    and "\<forall>i<length (index df). \<exists>k\<in>fst ` set (records rows).
           row_of_record pd (records rows) df i k"
    and "\<forall>(k, s)\<in>set (records rows). s \<noteq> [] \<or> keeps_empty_records pd \<longrightarrow>
           (\<exists>i<length (index df). row_of_record pd (records rows) df i k)"
proof -
  let ?recs = "records rows"
  let ?idx = "row_keys (keeps_empty_records pd) ?recs"
  let ?flds = "field_names ?recs"
  from b obtain df0 df1 df2 where
    f: "from_dict_index (keeps_empty_records pd) (JObj rows) = Inr df0"
    and c: "set_columns series_columns df0 = Inr df1"
    and p: "set_index_datetime (to_datetime pd) df1 = Inr df2"
    and n: "columns_to_numeric (to_numeric pd) (sort_index df2) = Inr df"
    by (auto simp add: build_frame_def split: sum.splits)
  from c have l0: "length (columns df0) = 5"
    and d1: "df1 = df0\<lparr>columns := zip series_columns (map snd (columns df0))\<rparr>"
    by (auto simp add: set_columns_def series_columns_def split: if_splits)
  from from_dict_index_frame [OF f l0]
  have i0: "index df0 = ?idx"
    and c0: "columns df0 = map (\<lambda>c. (c, map (\<lambda>k. cell ?recs k c) ?idx)) ?flds"
    by simp_all
  from l0 c0 have lf: "length ?flds = 5" by simp
  from p obtain ds where t: "those (map (to_datetime pd) (index df1)) = Some ds"
    and d2: "df2 = \<lparr>index = ds, columns = columns df1\<rparr>"
    by (auto simp add: set_index_datetime_def split: option.splits)
  from those_Some [OF t] d1 i0 have m: "map (to_datetime pd) ?idx = map Some ds"
    by simp
  then have lds: "length ds = length ?idx" by (metis length_map)
  have rd: "to_datetime pd (?idx ! q) = Some (ds ! q)" if "q < length ?idx" for q
    using m that lds by (metis nth_map)
  let ?order = "sort_key (\<lambda>i. ds ! i) [0..<length ds]"
  have so: "set ?order = {0..<length ds}" by simp
  have lo: "length ?order = length ds" by simp
  have ix: "index df = map (\<lambda>i. ds ! i) ?order"
    using columns_to_numeric_index [OF n] by (simp add: sort_index_index d2)
  have l2: "length (columns df2) = 5"
    using l0 by (simp add: d2 d1 series_columns_def)
  have col2: "columns df2 ! j = (series_columns ! j, map (\<lambda>k. cell ?recs k (?flds ! j)) ?idx)"
    if "j < 5" for j
    using that lf by (simp add: d2 d1 c0 series_columns_def comp_def)
  have cols: "snd (columns (sort_index df2) ! j) =
      map (\<lambda>i. cell ?recs (?idx ! i) (?flds ! j)) ?order" if "j < 5" for j
  proof -
    from that l2 have "columns (sort_index df2) ! j =
       (fst (columns df2 ! j), map (\<lambda>i. snd (columns df2 ! j) ! i) ?order)"
      using sort_index_column [of j df2] by (simp add: d2)
    moreover have "map (\<lambda>i. snd (columns df2 ! j) ! i) ?order =
        map (\<lambda>i. cell ?recs (?idx ! i) (?flds ! j)) ?order"
    proof (rule map_cong [OF refl])
      fix i assume "i \<in> set ?order"
      with so lds have "i < length ?idx" by simp
      then show "snd (columns df2 ! j) ! i = cell ?recs (?idx ! i) (?flds ! j)"
        by (simp add: col2 [OF that])
    qed
    ultimately show ?thesis by simp
  qed
  have l5: "length (columns df) = 5"
  proof -
    have "length (columns (sort_index df2)) = 5" by (simp add: length_columns_sort_index l2)
    moreover from n obtain cs where "collect (map (numeric_column (to_numeric pd))
        (columns (sort_index df2))) = Inr cs" and "columns df = cs"
      by (auto simp add: columns_to_numeric_def split: sum.splits)
    ultimately show ?thesis using collect_Inr by (metis length_map)
  qed
  have cellv: "numeric_cell (to_numeric pd) (cell ?recs (?idx ! (?order ! i)) (?flds ! j)) =
      Inr (snd (columns df ! j) ! i)" if "j < 5" and "i < length ds" for i j
  proof -
    from that have j: "j < length (columns (sort_index df2))"
      by (simp add: length_columns_sort_index l2)
    from that have i: "i < length (snd (columns (sort_index df2) ! j))"
      by (simp add: cols)
    from columns_to_numeric_cell [OF n j i] that show ?thesis
      by (simp add: cols)
  qed
  have row: "row_of_record pd ?recs df i (?idx ! (?order ! i))" if "i < length ds" for i
  proof -
    from that so have oi: "?order ! i \<in> {0..<length ds}" by (metis lo nth_mem)
    with lds have q: "?order ! i < length ?idx" by simp
    from that lo have "index df ! i = ds ! (?order ! i)" by (simp add: ix)
    with rd [OF q] have "to_datetime pd (?idx ! (?order ! i)) = Some (index df ! i)" by simp
    moreover have "list_all (\<lambda>j. numeric_cell (to_numeric pd)
          (cell ?recs (?idx ! (?order ! i)) (?flds ! j)) = Inr (snd (columns df ! j) ! i))
        [0..<length (columns df)]"
      using cellv that by (simp add: l5 list_all_iff)
    ultimately show ?thesis by (simp add: row_of_record_def)
  qed
  show "map fst (columns df) = series_columns"
  proof -
    have "map fst (columns (sort_index df2)) = series_columns"
      using l0 by (simp add: sort_index_def Let_def d2 d1 case_prod_beta comp_def
          series_columns_def)
    moreover from n obtain cs where cc: "collect (map (numeric_column (to_numeric pd))
        (columns (sort_index df2))) = Inr cs" and dc: "columns df = cs"
      by (auto simp add: columns_to_numeric_def split: sum.splits)
    have "map fst cs = map fst (columns (sort_index df2))"
    proof (rule nth_equalityI)
      from collect_Inr [OF cc] show "length (map fst cs) = length (map fst (columns (sort_index df2)))"
        by (metis length_map)
    next
      fix j assume "j < length (map fst cs)"
      then have j: "j < length cs" by simp
      from collect_Inr [OF cc] have mm: "map (numeric_column (to_numeric pd))
          (columns (sort_index df2)) = map Inr cs" .
      then have "length (columns (sort_index df2)) = length cs" by (metis length_map)
      with mm j have "numeric_column (to_numeric pd) (columns (sort_index df2) ! j) = Inr (cs ! j)"
        by (metis nth_map)
      then have "fst (cs ! j) = fst (columns (sort_index df2) ! j)"
        by (auto simp add: numeric_column_def split: sum.splits) (metis fst_conv)
      with j \<open>length (columns (sort_index df2)) = length cs\<close>
      show "map fst cs ! j = map fst (columns (sort_index df2)) ! j" by simp
    qed
    ultimately show ?thesis using dc by simp
  qed
  show "sorted (index df)"
    using columns_to_numeric_index [OF n] sorted_sort_index [of df2] by simp
  show "\<forall>i<length (index df). \<exists>k\<in>fst ` set (records rows).
           row_of_record pd (records rows) df i k"
  proof (intro allI impI)
    fix i assume "i < length (index df)"
    then have i: "i < length ds" by (simp add: ix)
    with so have "?order ! i \<in> {0..<length ds}" by (metis lo nth_mem)
    with lds have "?idx ! (?order ! i) \<in> set ?idx" by simp
    with set_row_keys have "?idx ! (?order ! i) \<in> fst ` set ?recs" by blast
    with row [OF i] show "\<exists>k\<in>fst ` set (records rows). row_of_record pd (records rows) df i k"
      by blast
  qed
  show "\<forall>(k, s)\<in>set (records rows). s \<noteq> [] \<or> keeps_empty_records pd \<longrightarrow>
           (\<exists>i<length (index df). row_of_record pd (records rows) df i k)"
  proof (intro ballI, clarify)
    fix k s assume ks: "(k, s) \<in> set ?recs" and e: "s \<noteq> [] \<or> keeps_empty_records pd"
    from row_keys_has [OF ks e] obtain q where q: "q < length ?idx" and kq: "?idx ! q = k"
      by (auto simp add: in_set_conv_nth)
    with lds so have qs: "q \<in> set ?order" by simp
    obtain i where i: "i < length ?order" and oi: "?order ! i = q"
      using qs unfolding in_set_conv_nth by blast
    from i have i': "i < length ds" by simp
    from row [OF i'] oi kq have "row_of_record pd ?recs df i k" by simp
    with i' ix show "\<exists>i<length (index df). row_of_record pd (records rows) df i k"
      by auto
  qed
qed


lemma build_frame_strict:
  assumes b: "build_frame pd (JObj rows) = Inr df"
    and inj: "inj_on (to_datetime pd) (fst ` set rows)"
  shows "sorted_wrt (<) (index df)"
proof -
  from b obtain df0 df1 df2 where
    f: "from_dict_index (keeps_empty_records pd) (JObj rows) = Inr df0"
    and c: "set_columns series_columns df0 = Inr df1"
    and p: "set_index_datetime (to_datetime pd) df1 = Inr df2"
    and n: "columns_to_numeric (to_numeric pd) (sort_index df2) = Inr df"
    by (auto simp add: build_frame_def split: sum.splits)
  from from_dict_index_keys [OF f]
  have d0: "distinct (index df0)" and s0: "set (index df0) \<subseteq> fst ` set rows" by simp_all
  from c have i1: "index df1 = index df0"
    by (auto simp add: set_columns_def split: if_splits)
  from p obtain ds where t: "those (map (to_datetime pd) (index df1)) = Some ds"
    and i2: "index df2 = ds"
    by (auto simp add: set_index_datetime_def split: option.splits)
  from those_Some [OF t] have m: "map (to_datetime pd) (index df0) = map Some ds"
    by (simp add: i1)
  from inj s0 have "inj_on (to_datetime pd) (set (index df0))"
    by (rule inj_on_subset)
  with d0 have "distinct (map (to_datetime pd) (index df0))"
    by (simp add: distinct_map)
  with m have "distinct (map Some ds)" by simp
  then have "distinct ds" by (simp add: distinct_map)
  with i2 have "distinct (index (sort_index df2))"
    by (simp add: distinct_sort_index)
  moreover have "sorted (index (sort_index df2))" by (rule sorted_sort_index)
  ultimately show ?thesis
    using columns_to_numeric_index [OF n] by (simp add: strict_sorted_iff)
qed

lemma fetched_build_frame:
  assumes fetched: "fetch_stock_data pd API_KEY net sent symbol = ((notices, Some df), sent')"
    and body: "net (length sent) (params API_KEY symbol) = Body ms"
    and series: "map_of (py_dict ms) ''Time Series (Daily)'' = Some (JObj rows)"
  shows "build_frame pd (JObj rows) = Inr df"
proof -
  from fetched body
  have "handle_response pd symbol (Body ms) = (notices, Some df)"
    by (simp add: fetch_stock_data_eq)
  with series show ?thesis
    by (auto simp add: handle_response_def Let_def split: if_splits option.splits sum.splits)
qed

lemma undated_series_frame:
  assumes "to_datetime pd = iso_date" and "to_numeric pd = decimal"
  shows "build_frame pd
     (JObj [(''NaT'', bar ''7'' ''7'' ''7'' ''7'' ''70''),
            (''2024-01-02'', bar ''10'' ''11'' ''9.5'' ''10.5'' ''100''),
            (''nan'', bar ''7'' ''7'' ''7'' ''7'' ''70'')]) = Inr undated_frame"
  by (cases "keeps_empty_records pd")
    (simp_all add: assms build_frame_def from_dict_index_def records_def field_names_def
      row_keys_def cell_def py_dict_def bar_def first_seen_def Let_def
      set_columns_def series_columns_def set_index_datetime_def iso_dates sort_index_def
      columns_to_numeric_def numeric_column_def decimals undated_frame_def upt_rec)

lemma undated_body_frame:
  assumes "to_datetime pd = iso_date" and "to_numeric pd = decimal"
  shows "handle_response pd ''IBM'' (Body undated_body) = ([], Some undated_frame)"
  by (simp add: handle_response_def undated_body_def py_dict_def undated_series_frame [OF assms])

text \<open>The frame \<^verbatim>\<open>build_frame\<close> returns is a price series.\<close>

lemma well_formed_from_dict_index:
  assumes "from_dict_index keeps_empty ts = Inr df"
  shows "well_formed df"
proof (cases ts)
  case (JObj ms)
  show ?thesis
  proof (cases "py_dict ms")
    case Nil
    with assms JObj show ?thesis by (auto simp add: from_dict_index_def well_formed_def)
  next
    case (Cons m rest)
    obtain k0 v0 where m: "m = (k0, v0)" by (cases m)
    from assms JObj Cons m show ?thesis
      by (auto simp add: from_dict_index_def well_formed_def Let_def list_all_iff split: if_splits)
  qed
qed (use assms in \<open>simp_all add: from_dict_index_def\<close>)

lemma well_formed_snd:
  "well_formed df \<longleftrightarrow> list_all (\<lambda>vs. length vs = length (index df)) (map snd (columns df))"
  by (simp add: well_formed_def list.pred_map comp_def)

lemma set_columns_series:
  assumes "set_columns names df = Inr df'" and "well_formed df"
  shows "map fst (columns df') = names \<and> well_formed df' \<and> index df' = index df"
proof -
  from assms(1) have l: "length names = length (columns df)"
    and d: "df' = df\<lparr>columns := zip names (map snd (columns df))\<rparr>"
    by (auto simp add: set_columns_def split: if_splits)
  from l have "map fst (zip names (map snd (columns df))) = names"
    and "map snd (zip names (map snd (columns df))) = map snd (columns df)"
    by simp_all
  with assms(2) show ?thesis
    by (simp add: d well_formed_snd)
qed

lemma set_index_datetime_series:
  assumes "set_index_datetime read df = Inr df'" and "well_formed df"
  shows "columns df' = columns df \<and> well_formed df'"
proof -
  from assms(1) obtain ds where t: "those (map read (index df)) = Some ds"
    and d: "df' = \<lparr>index = ds, columns = columns df\<rparr>"
    by (auto simp add: set_index_datetime_def split: option.splits)
  from those_Some [OF t] have "length (map read (index df)) = length (map Some ds)"
    by simp
  then have "length ds = length (index df)" by simp
  with assms(2) show ?thesis by (simp add: d well_formed_def)
qed

lemma sort_index_series:
  assumes "well_formed df"
  shows "map fst (columns (sort_index df)) = map fst (columns df) \<and> well_formed (sort_index df)"
  using assms
  by (auto simp add: sort_index_def Let_def well_formed_def list_all_iff case_prod_beta comp_def)

lemma numeric_column_Inr:
  assumes "numeric_column read c = Inr c'"
  shows "fst c' = fst c \<and> length (snd c') = length (snd c)"
proof -
  from assms obtain xs where x: "collect (map (numeric_cell read) (snd c)) = Inr xs"
    and c': "c' = (fst c, xs)"
    by (auto simp add: numeric_column_def split: sum.splits)
  from collect_Inr [OF x] have "length (map (numeric_cell read) (snd c)) = length (map Inr xs)"
    by simp
  with c' show ?thesis by simp
qed

lemma map_Inr_columns:
  "map (numeric_column read) cols = map Inr cs \<Longrightarrow>
     map fst cs = map fst cols \<and> map (length \<circ> snd) cs = map (length \<circ> snd) cols"
proof (induction cols arbitrary: cs)
  case Nil
  then show ?case by simp
next
  case (Cons c cols)
  then obtain c' cs' where cs: "cs = c' # cs'" by (cases cs) auto
  with Cons.prems have h: "numeric_column read c = Inr c'"
    and t: "map (numeric_column read) cols = map Inr cs'"
    by simp_all
  from numeric_column_Inr [OF h] Cons.IH [OF t] cs show ?case by simp
qed

lemma columns_to_numeric_series:
  assumes "columns_to_numeric read df = Inr df'" and "well_formed df"
  shows "map fst (columns df') = map fst (columns df) \<and> well_formed df'"
proof -
  from assms(1) obtain cs where c: "collect (map (numeric_column read) (columns df)) = Inr cs"
    and d: "df' = \<lparr>index = index df, columns = cs\<rparr>"
    by (auto simp add: columns_to_numeric_def split: sum.splits)
  from map_Inr_columns [OF collect_Inr [OF c]]
  have names: "map fst cs = map fst (columns df)"
    and lens: "map (length \<circ> snd) cs = map (length \<circ> snd) (columns df)"
    by simp_all
  have "well_formed df \<longleftrightarrow>
      list_all (\<lambda>n. n = length (index df)) (map (length \<circ> snd) (columns df))"
    by (simp add: well_formed_def list.pred_map comp_def)
  moreover have "well_formed df' \<longleftrightarrow>
      list_all (\<lambda>n. n = length (index df)) (map (length \<circ> snd) cs)"
    by (simp add: d well_formed_def list.pred_map comp_def)
  ultimately have "well_formed df'" using assms(2) lens by simp
  with names show ?thesis by (simp add: d)
qed

lemma build_frame_series:
  assumes "build_frame pd ts = Inr df"
  shows "price_series df"
proof -
  from assms obtain df0 df1 df2 where
    f: "from_dict_index (keeps_empty_records pd) ts = Inr df0"
    and c: "set_columns series_columns df0 = Inr df1"
    and p: "set_index_datetime (to_datetime pd) df1 = Inr df2"
    and n: "columns_to_numeric (to_numeric pd) (sort_index df2) = Inr df"
    by (auto simp add: build_frame_def split: sum.splits)
  from well_formed_from_dict_index [OF f] have w0: "well_formed df0" .
  from set_columns_series [OF c w0] have n1: "map fst (columns df1) = series_columns"
    and w1: "well_formed df1" by simp_all
  from set_index_datetime_series [OF p w1] have c2: "columns df2 = columns df1"
    and w2: "well_formed df2" by simp_all
  from sort_index_series [OF w2] have n3: "map fst (columns (sort_index df2)) = map fst (columns df2)"
    and w3: "well_formed (sort_index df2)" by simp_all
  from columns_to_numeric_series [OF n w3] n3 c2 n1 show ?thesis
    by (simp add: price_series_def)
qed

subsection \<open>C6: ascending dates\<close>

text \<open>
  Claim C6 says that the series of every successful fetch is strictly ascending by date.
  pandas reads the keys \<^verbatim>\<open>NaT\<close> and \<^verbatim>\<open>nan\<close> as not-a-time; on a body with a
  record under each, the fetch succeeds, with either library, and the index of its frame
  holds not-a-time twice, so it is not strictly ascending.
\<close>

theorem repeated_date_counterexample:
  "fetch_stock_data pandas_3 (Some ''demo'') (answering (Body undated_body)) [] ''IBM'' =
      (([], Some undated_frame), [params (Some ''demo'') ''IBM'']) \<and>
   fetch_stock_data pandas_2 (Some ''demo'') (answering (Body undated_body)) [] ''IBM'' =
      (([], Some undated_frame), [params (Some ''demo'') ''IBM'']) \<and>
   index undated_frame = [At 20240102, NaT, NaT] \<and>
   \<not> sorted_wrt (<) (index undated_frame)"
  by (simp add: fetch_stock_data_eq answering_def undated_body_frame readers_pandas_2
      readers_pandas_3 undated_frame_def)

text \<open>
  C6, as the code has it: when \<^verbatim>\<open>fetch_stock_data\<close> returns a frame, in whatever
  order the body lists the records of the series, the frame has the columns Open, High,
  Low, Close and Volume, each as long as the index, and its index is ascending; every row
  of it is one of the records,
  under the date its key is read as and with its fields read as numbers, the fields in
  the order they were first met; every record that has a field (every record, where the
  library keeps one without) is a row of it; and the index is strictly ascending when no
  two keys of the series are read as the same date.
\<close>

theorem fetched_series_sorted_by_date:
  assumes fetched: "fetch_stock_data pd API_KEY net sent symbol = ((notices, Some df), sent')"
    and body: "net (length sent) (params API_KEY symbol) = Body ms"
    and series: "map_of (py_dict ms) ''Time Series (Daily)'' = Some (JObj rows)"
  shows "price_series df \<and>
    sorted (index df) \<and>
    (\<forall>i<length (index df). \<exists>k\<in>fst ` set (records rows).
       row_of_record pd (records rows) df i k) \<and>
    (\<forall>(k, s)\<in>set (records rows). s \<noteq> [] \<or> keeps_empty_records pd \<longrightarrow>
       (\<exists>i<length (index df). row_of_record pd (records rows) df i k)) \<and>
    (inj_on (to_datetime pd) (fst ` set rows) \<longrightarrow> sorted_wrt (<) (index df))"
proof -
  from fetched body series have b: "build_frame pd (JObj rows) = Inr df"
    by (rule fetched_build_frame)
  from build_frame_series [OF b] build_frame_rows [OF b] build_frame_strict [OF b]
  show ?thesis
    by blast
qed

theorem fetched_series_sorted_by_date_witness:
  "fetch_stock_data pandas_3 (Some ''demo'') (answering (Body daily_body)) [] ''IBM'' =
      (([], Some daily_frame), [params (Some ''demo'') ''IBM'']) \<and>
   inj_on iso_date {''2024-01-04'', ''2024-01-03'', ''2024-01-02''} \<and>
   price_series daily_frame \<and>
   index daily_frame = [At 20240102, At 20240103, At 20240104] \<and>
   sorted_wrt (<) (index daily_frame) \<and>
   row_of_record pandas_3
     (records [(''2024-01-04'', bar ''11.5'' ''12'' ''11'' ''11.25'' ''300''),
               (''2024-01-03'', bar ''10.5'' ''12'' ''10'' ''11.5'' ''200''),
               (''2024-01-02'', bar ''10'' ''11'' ''9.5'' ''10.5'' ''100'')])
     daily_frame 0 ''2024-01-02'' \<and>
   row_of_record pandas_3
     (records [(''2024-01-04'', bar ''11.5'' ''12'' ''11'' ''11.25'' ''300''),
               (''2024-01-03'', bar ''10.5'' ''12'' ''10'' ''11.5'' ''200''),
               (''2024-01-02'', bar ''10'' ''11'' ''9.5'' ''10.5'' ''100'')])
     daily_frame 2 ''2024-01-04''"
proof -
  let ?rows = "[(''2024-01-04'', bar ''11.5'' ''12'' ''11'' ''11.25'' ''300''),
               (''2024-01-03'', bar ''10.5'' ''12'' ''10'' ''11.5'' ''200''),
               (''2024-01-02'', bar ''10'' ''11'' ''9.5'' ''10.5'' ''100'')]"
  have f: "fetch_stock_data pandas_3 (Some ''demo'') (answering (Body daily_body)) [] ''IBM'' =
      (([], Some daily_frame), [params (Some ''demo'') ''IBM''])"
    by (simp add: fetch_stock_data_eq answering_def daily_body_frame readers_pandas_3)
  have b: "answering (Body daily_body) (length []) (params (Some ''demo'') ''IBM'') = Body daily_body"
    by (simp add: answering_def)
  have s: "map_of (py_dict daily_body) ''Time Series (Daily)'' = Some (JObj ?rows)"
    by (simp add: daily_body_def py_dict_def)
  have i: "inj_on iso_date {''2024-01-04'', ''2024-01-03'', ''2024-01-02''}"
    by (simp add: iso_dates)
  then have i': "inj_on (to_datetime pandas_3) (fst ` set ?rows)"
    by (simp add: readers_pandas_3)
  have r0: "row_of_record pandas_3 (records ?rows) daily_frame 0 ''2024-01-02''"
    by (simp add: row_of_record_def records_def field_names_def cell_def py_dict_def bar_def
        first_seen_def readers_pandas_3 iso_dates decimals daily_frame_def upt_rec)
  have r2: "row_of_record pandas_3 (records ?rows) daily_frame 2 ''2024-01-04''"
    by (simp add: row_of_record_def records_def field_names_def cell_def py_dict_def bar_def
        first_seen_def readers_pandas_3 iso_dates decimals daily_frame_def upt_rec)
  from fetched_series_sorted_by_date [OF f b s] f i i' r0 r2
  show ?thesis
    by (simp add: daily_frame_def)
qed

section \<open>Properties of main\<close>

lemma placeholder_credential_stops:
  "main pd (Some ''your_api_key_here'') net now w s =
     (Stopped, if refresh w then clear s else s)"
  by (simp add: main_def Let_def)

lemma placeholder_credential_sends_nothing:
  "requests_sent (snd (main pd (Some ''your_api_key_here'') net now w s)) =
     requests_sent s"
  by (simp add: placeholder_credential_stops clear_def)

subsection \<open>C4: the check of the key\<close>

text \<open>
  C4 fails when the key is not set: \<^verbatim>\<open>os.getenv\<close> then gives \<^verbatim>\<open>None\<close>, which line
  199 does not take for the placeholder, and the run goes on to the fetch. With no key, the
  default widgets and an empty cache, \<^verbatim>\<open>main\<close> sends a request that carries no key,
  with either library.
\<close>

theorem missing_credential_fetches:
  "main pandas_3 None (answering TransportFailure) 0 default_widgets cold =
     (Unable ''AAPL'',
      \<lparr>cache = [''AAPL'' \<mapsto> (0, None)], requests_sent = [params None ''AAPL'']\<rparr>) \<and>
   main pandas_2 None (answering TransportFailure) 0 default_widgets cold =
     (Unable ''AAPL'',
      \<lparr>cache = [''AAPL'' \<mapsto> (0, None)], requests_sent = [params None ''AAPL'']\<rparr>)"
proof -
  have c: "cache cold ''AAPL'' = None" by (simp add: cold_def)
  have "cached_fetch_stock_data pd None (answering TransportFailure) 0 cold ''AAPL'' =
     (None, \<lparr>cache = [''AAPL'' \<mapsto> (0, None)], requests_sent = [params None ''AAPL'']\<rparr>)"
    for pd :: "stamp pandas"
    using cached_miss [of cold "''AAPL''" 0 pd None "answering TransportFailure"] c
    by (simp add: cold_def answering_def handle_response_def)
  then show ?thesis
    by (simp add: main_def default_widgets_def upper_def Let_def dashboard_def)
qed

lemma main_session:
  "snd (main pd API_KEY net now w s) =
     (let custom_symbol = upper (custom_input w);
          symbol = (if custom_symbol \<noteq> [] then custom_symbol else selected w);
          s1 = (if refresh w then clear s else s)
      in if API_KEY = Some ''your_api_key_here'' \<or> symbol = [] then s1
         else snd (cached_fetch_stock_data pd API_KEY net now s1 symbol))"
  by (simp add: main_def Let_def case_prod_beta)


lemma main_sends_request:
  assumes "API_KEY \<noteq> Some ''your_api_key_here''" and "selected w \<noteq> []"
    and "custom_input w = []" and "cache s (selected w) = None" and "\<not> refresh w"
  shows "requests_sent (snd (main pd API_KEY net now w s)) =
     requests_sent s @ [params API_KEY (selected w)]"
proof -
  from assms(4) have "cache s (selected w) = None \<or>
    (\<exists>stored v. cache s (selected w) = Some (stored, v) \<and> \<not> now < stored + ttl)"
    by simp
  from cached_miss [OF this, of pd API_KEY net] assms show ?thesis
    by (simp add: main_session upper_def Let_def)
qed

section \<open>The frame a fetch returns\<close>

text \<open>
  Every frame \<^verbatim>\<open>fetch_stock_data\<close> returns has the five price columns, each as long
  as the index, and so has every tail of it: the series that the properties of
  \<^verbatim>\<open>calculate_metrics\<close> above are about are the frames the code passes to it.
\<close>

lemma fetched_is_price_series:
  assumes "fetch_stock_data pd API_KEY net sent symbol =
      ((notices, Some df), sent')"
  shows "price_series df"
proof -
  from assms obtain ts where "build_frame pd ts = Inr df"
    by (auto simp add: fetch_stock_data_eq handle_response_def Let_def
        split: response.splits if_splits option.splits sum.splits)
  then show ?thesis by (rule build_frame_series)
qed

lemma price_series_tail:
  assumes "price_series df"
  shows "price_series (tail n df)"
proof -
  from assms obtain op hi lo cl vo where
    cs: "columns df =
       [(''Open'', op), (''High'', hi), (''Low'', lo), (''Close'', cl), (''Volume'', vo)]"
    by (rule price_series_cols)
  from assms have "well_formed df" by (simp add: price_series_def)
  with cs show ?thesis
    by (simp add: price_series_def series_columns_def well_formed_def tail_def)
qed

text \<open>
  So the part of \<^verbatim>\<open>main\<close> after the fetch raises nothing on a fetched frame, for any
  period chosen.
\<close>

lemma dashboard_never_raises:
  assumes "price_series f"
  shows "dashboard pd period symbol (Some f) \<noteq> Raised e"
proof (cases "empty_frame f")
  case True
  then show ?thesis by (simp add: dashboard_def)
next
  case False
  then have ne: "index f \<noteq> []" by (simp add: empty_frame_def)
  show ?thesis
  proof (cases "days_of period")
    case None
    let ?h = "(\<lambda>r. no_frame)(0 := f)"
    from assms obtain op hi lo cl vo where
      cs: "columns f =
         [(''Open'', op), (''High'', hi), (''Low'', lo), (''Close'', cl), (''Volume'', vo)]"
      and len: "length cl = length (index f)" "length vo = length (index f)"
      by (rule price_series_cols)
    from cs have cs': "columns (?h 0) =
         [(''Open'', op), (''High'', hi), (''Low'', lo), (''Close'', cl), (''Volume'', vo)]"
      by simp
    from len have len': "length cl = length (index (?h 0))" "length vo = length (index (?h 0))"
      by simp_all
    from ne have n: "index (?h 0) \<noteq> []" by simp
    from calculate_metrics_cols [of ?h 0, OF cs' n len', of pd] False None show ?thesis
      by (simp add: dashboard_def)
  next
    case (Some days)
    then have d: "0 < days" by (cases period) auto
    let ?h = "((\<lambda>r. no_frame)(0 := f))(1 := tail days f)"
    from price_series_tail [OF assms, of days] obtain op hi lo cl vo where
      cs: "columns (tail days f) =
         [(''Open'', op), (''High'', hi), (''Low'', lo), (''Close'', cl), (''Volume'', vo)]"
      and len: "length cl = length (index (tail days f))"
        "length vo = length (index (tail days f))"
      by (rule price_series_cols)
    from cs have cs': "columns (?h 1) =
         [(''Open'', op), (''High'', hi), (''Low'', lo), (''Close'', cl), (''Volume'', vo)]"
      by simp
    from len have len': "length cl = length (index (?h 1))" "length vo = length (index (?h 1))"
      by simp_all
    from ne have "0 < length (index f)" by simp
    with d have "length (index f) - days < length (index f)" by arith
    then have n: "index (?h 1) \<noteq> []" by (simp add: tail_def)
    from calculate_metrics_cols [of ?h 1, OF cs' n len', of pd] False Some show ?thesis
      by (simp add: dashboard_def)
  qed
qed

text \<open>
  The metrics of the five-bar series with the closing prices 10, 12, 9, 11, 15: the
  current price is 15, the change 4 and the percent change 400/11.
\<close>

lemma five_bars_metrics:
  "\<exists>m. snd (calculate_metrics pd (\<lambda>_. five_bars) (Some 0)) = Inr (Result m 0) \<and>
     current_price m = Fin 15 \<and> daily_change m = Fin 4 \<and>
     daily_change_pct m = Fin (400 / 11) \<and> volume m = Fin 500 \<and>
     high_52w m = Fin 16 \<and> low_52w m = Fin 8 \<and> avg_volume m = Fin 300 \<and>
     ma_20 m = None \<and> ma_50 m = None"
  using calculate_metrics_cols [of "\<lambda>_. five_bars" 0
        "[Fin 10, Fin 11, Fin 9, Fin 10, Fin 12]" "[Fin 11, Fin 13, Fin 10, Fin 12, Fin 16]"
        "[Fin 9, Fin 10, Fin 8, Fin 10, Fin 11]" "[Fin 10, Fin 12, Fin 9, Fin 11, Fin 15]"
        "[Fin 100, Fin 200, Fin 300, Fin 400, Fin 500]" pd]
  by (simp add: five_bars_def fsub_def series_max_def series_min_def series_mean_def
      dropna_def fmax2_def fmin2_def fsum_def rolling_mean_def optional_def upt_rec)

text \<open>
  A fetch can return a series with a closing price that is not a number: a null cell is
  read as one.
\<close>

lemma null_close_is_fetched:
  assumes "to_datetime pd = iso_date" and "to_numeric pd = decimal"
  shows "handle_response pd ''IBM'' (Body null_close_body) =
     ([], Some \<lparr>index = [At 20240102],
                columns = [(''Open'', [Fin 10]), (''High'', [Fin 11]), (''Low'', [Fin (19 / 2)]),
                           (''Close'', [NaN]), (''Volume'', [Fin 100])]\<rparr>)"
  by (cases "keeps_empty_records pd")
    (simp_all add: assms handle_response_def null_close_body_def build_frame_def
      from_dict_index_def records_def field_names_def row_keys_def cell_def py_dict_def
      first_seen_def Let_def set_columns_def series_columns_def set_index_datetime_def
      iso_dates sort_index_def columns_to_numeric_def numeric_column_def decimals upt_rec)

end
